theory Spec2Isabelle
  imports Complex_Main
begin

section \<open>Python values, errors and numpy helpers\<close>

text \<open>
  The sources are \<^verbatim>\<open>Tools/plotting.py\<close> (\<^verbatim>\<open>get_cta_psf\<close>, \<^verbatim>\<open>show_map\<close>) and
  \<^verbatim>\<open>clustpipe_admin.py\<close> (\<^verbatim>\<open>Admin._check_obsID\<close>).

  Floating-point numbers are modelled by the reals, so every pixel and every energy
  is a finite number: rounding of sums and products is not modelled, and NaN and
  infinite inputs are outside the model. Two places where a float result decides what
  the code does are written out: numpy's division, which returns NaN for \<open>0 / 0\<close>
  (\<open>np_divide\<close>), and the two functions \<^verbatim>\<open>np.log10\<close> and \<^verbatim>\<open>10 ** y\<close> that build the
  energy grid, which are parameters of the model (\<open>numpy\<close>) because their rounding
  decides whether an end point of the grid passes a strict comparison.
  Calls into scipy, matplotlib and astropy are not part of the sources: the cubic
  interpolation and the Gaussian convolution are parameters of the model, and the
  drawing calls are recorded with their arguments, in the order the code issues them.
\<close>

datatype error = ValueError | TypeError | IndexError

text \<open>The result of a float64 division in numpy: it never raises.\<close>

datatype npfloat = Finite real | PosInf | NegInf | NaN

definition np_divide :: "real \<Rightarrow> real \<Rightarrow> npfloat" where
  "np_divide a b =
     (if b \<noteq> 0 then Finite (a / b)
      else if a = 0 then NaN
      else if 0 < a then PosInf else NegInf)"

text \<open>Addition of two one-dimensional arrays, with numpy's broadcasting rule.\<close>

definition np_add :: "real list \<Rightarrow> real list \<Rightarrow> error + real list" where
  "np_add xs ys =
     (if length xs = length ys then Inr (map2 (+) xs ys)
      else if length xs = 1 then Inr (map (\<lambda>y. hd xs + y) ys)
      else if length ys = 1 then Inr (map (\<lambda>x. x + hd ys) xs)
      else Inl ValueError)"

text \<open>
  The float functions of numpy that build the energy grid. Their values are floats
  close to the real logarithm and power; nothing is assumed of them here.
\<close>

record numpy =
  np_log10 :: "real \<Rightarrow> real"
  np_pow10 :: "real \<Rightarrow> real"

text \<open>
  \<^verbatim>\<open>np.linspace(start, stop, num)\<close> computes \<^verbatim>\<open>arange(0, num) * step + start\<close> with
  \<^verbatim>\<open>step = (stop - start) / (num - 1)\<close>; \<^verbatim>\<open>np.logspace\<close> is \<^verbatim>\<open>10 ** linspace\<close>.
\<close>

definition linspace_point :: "real \<Rightarrow> real \<Rightarrow> nat \<Rightarrow> nat \<Rightarrow> real" where
  "linspace_point start stop num i = real i * ((stop - start) / real (num - 1)) + start"

definition linspace :: "real \<Rightarrow> real \<Rightarrow> nat \<Rightarrow> real list" where
  "linspace start stop num = map (linspace_point start stop num) [0..<num]"

definition logspace :: "numpy \<Rightarrow> real \<Rightarrow> real \<Rightarrow> nat \<Rightarrow> real list" where
  "logspace np start stop num = map (np_pow10 np) (linspace start stop num)"

text \<open>Boolean-mask indexing \<^verbatim>\<open>xs[mask]\<close> of arrays of equal length.\<close>

definition mask_select :: "bool list \<Rightarrow> 'a list \<Rightarrow> 'a list" where
  "mask_select sel xs = map snd (filter fst (zip sel xs))"

section \<open>The PSF estimator: \<^verbatim>\<open>get_cta_psf\<close>\<close>

text \<open>
  Extension 2 of the IRF file, as the code reads it: the rows \<^verbatim>\<open>[0,:]\<close> of the bin
  edges and the plane \<^verbatim>\<open>[0,:,:]\<close> of \<^verbatim>\<open>SIGMA_1\<close> (offset angle by energy). Opening the
  file is outside the model.
\<close>

record data_PSF =
  THETA_LO :: "real list"
  THETA_HI :: "real list"
  ENERG_LO :: "real list"
  ENERG_HI :: "real list"
  SIGMA_1 :: "real list list"

text \<open>
  \<^verbatim>\<open>interpolate.interp1d(x, y, kind='cubic')\<close> is scipy's. It can refuse the samples,
  and the interpolant it returns can refuse a point. Calling the interpolant on an
  array evaluates it at each entry and raises when one entry is refused.
\<close>

type_synonym interpolant = "real \<Rightarrow> error + real"
type_synonym interp1d = "real list \<Rightarrow> real list \<Rightarrow> error + interpolant"

fun eval_all :: "interpolant \<Rightarrow> real list \<Rightarrow> error + real list" where
  "eval_all fitpl [] = Inr []"
| "eval_all fitpl (e # es) =
     (case fitpl e of
        Inl err \<Rightarrow> Inl err
      | Inr p \<Rightarrow> (case eval_all fitpl es of Inl err \<Rightarrow> Inl err | Inr ps \<Rightarrow> Inr (p # ps)))"

definition get_cta_psf ::
  "numpy \<Rightarrow> interp1d \<Rightarrow> data_PSF \<Rightarrow> real \<Rightarrow> real \<Rightarrow> real \<Rightarrow> error + npfloat" where
  "get_cta_psf np interp1d_cubic data emin emax w8_slope =
     (case np_add (THETA_LO data) (THETA_HI data) of
        Inl err \<Rightarrow> Inl err
      | Inr theta_sum \<Rightarrow>
     (case np_add (ENERG_LO data) (ENERG_HI data) of
        Inl err \<Rightarrow> Inl err
      | Inr eng_sum \<Rightarrow>
     (case SIGMA_1 data of
        [] \<Rightarrow> Inl IndexError
      | PSF_E # _ \<Rightarrow>
     (case interp1d_cubic (map (\<lambda>x. x / 2) eng_sum) PSF_E of
        Inl err \<Rightarrow> Inl err
      | Inr fitpl \<Rightarrow>
     (let e_itpl = logspace np (np_log10 np emin) (np_log10 np emax) 1000 in
      case eval_all fitpl e_itpl of
        Inl err \<Rightarrow> Inl err
      | Inr PSF_raw \<Rightarrow>
         (let PSF_itpl = map (\<lambda>p. p * 2 * sqrt (2 * ln 2)) PSF_raw;
              weng = map (\<lambda>e. emin < e \<and> e < emax) e_itpl
          in Inr (np_divide
                (sum_list (map2 (\<lambda>p e. p * e powr w8_slope)
                   (mask_select weng PSF_itpl) (mask_select weng e_itpl)))
                (sum_list (map (\<lambda>e. e powr w8_slope) (mask_select weng e_itpl))))))))))"

text \<open>
  What the theorems ask of scipy's cubic \<^verbatim>\<open>interp1d\<close>, with its default
  \<^verbatim>\<open>bounds_error\<close>: a cubic spline needs at least four samples, so fewer are refused
  with ValueError; four or more strictly increasing samples with as many values are
  accepted, and the interpolant returns a number at every point within the range of
  the samples and raises ValueError outside it.
\<close>

definition scipy_cubic :: "interp1d \<Rightarrow> bool" where
  "scipy_cubic ip =
     (\<forall>xs ys.
        (length xs < 4 \<longrightarrow> ip xs ys = Inl ValueError) \<and>
        (4 \<le> length xs \<and> length ys = length xs \<and> sorted_wrt (<) xs \<longrightarrow>
           (\<exists>f. ip xs ys = Inr f \<and>
              (\<forall>e. if hd xs \<le> e \<and> e \<le> last xs then (\<exists>w. f e = Inr w)
                   else f e = Inl ValueError))))"

section \<open>The sky-map renderer: \<^verbatim>\<open>show_map\<close>\<close>

text \<open>
  The primary HDU of the map file, as the code uses it: the pixel array and, of the
  header's WCS, the two-dimensional \<^verbatim>\<open>cdelt\<close>, \<^verbatim>\<open>crval\<close> and \<^verbatim>\<open>crpix\<close>. An image is a
  list of rows.
\<close>

type_synonym image = "real list list"

record wcs =
  cdelt :: "real \<times> real"
  crval :: "real \<times> real"
  crpix :: "real \<times> real"

record hdu =
  data :: image
  header :: wcs

text \<open>
  A pointing coordinate is a float or a Python list of floats; the code tells them
  apart by what \<^verbatim>\<open>ptg_dec+0.2\<close> does.
\<close>

datatype pyval = PyFloat real | PyList "real list"

text \<open>
  The keyword arguments of \<^verbatim>\<open>show_map\<close>. \<^verbatim>\<open>smoothing_FWHM\<close> is the angle in degrees
  (the code converts the astropy quantity with \<^verbatim>\<open>to_value('deg')\<close>).
\<close>

record show_map_args =
  smoothing_FWHM :: real
  cluster_ra :: "real option"
  cluster_dec :: "real option"
  cluster_t500 :: "real option"
  cluster_name :: string
  ps_name :: "string list"
  ps_ra :: "real option list"
  ps_dec :: "real option list"
  ptg_ra :: "pyval option"
  ptg_dec :: "pyval option"
  PSF :: "real option"
  maptitle :: string
  bartitle :: string
  rangevalue :: "real option \<times> real option"
  logscale :: bool
  significance :: bool
  cmap :: string

definition default_args :: show_map_args where
  "default_args =
     \<lparr>smoothing_FWHM = 0, cluster_ra = None, cluster_dec = None, cluster_t500 = None,
      cluster_name = [], ps_name = [], ps_ra = [], ps_dec = [], ptg_ra = None,
      ptg_dec = None, PSF = None, maptitle = [], bartitle = [],
      rangevalue = (None, None), logscale = True, significance = False,
      cmap = ''magma''\<rparr>"

text \<open>
  The drawing calls, recorded with the arguments the claims are about:
  \<^item> \<^verbatim>\<open>imshow\<close>: image, colour map, whether \<^verbatim>\<open>SymLogNorm(1)\<close> is used, \<^verbatim>\<open>vmin\<close>, \<^verbatim>\<open>vmax\<close>;
  \<^item> \<^verbatim>\<open>Ellipse\<close>: centre, width, height (both full axes), line width, \<^verbatim>\<open>fill\<close>, edge and
    face colour;
  \<^item> \<^verbatim>\<open>scatter\<close>: x, y, marker, size, face and edge colour (\<^verbatim>\<open>color=c\<close> sets both);
  \<^item> \<^verbatim>\<open>text\<close>: x, y, the string, font size, colour.
\<close>

datatype artist =
    Imshow image string bool real real
  | Ellipse "real \<times> real" real real real bool string string
  | Scatter pyval pyval string real string string
  | Text pyval pyval string real string

record figure =
  artists :: "artist list"
  xlabel :: string
  ylabel :: string
  title :: string
  colorbar_label :: string

text \<open>
  What a call leaves behind: the lines printed, the file written by \<^verbatim>\<open>savefig\<close> (its
  name and the figure), and the exception that ended the call, if one did.
\<close>

record outcome =
  stdout :: "string list"
  saved :: "(string \<times> figure) option"
  raised :: "error option"

text \<open>\<^verbatim>\<open>ndimage.gaussian_filter(image, sigma=sigma_sm)\<close> is scipy's.\<close>

type_synonym gaussian_filter = "image \<Rightarrow> real \<Rightarrow> image"

text \<open>
  Inside scipy, \<^verbatim>\<open>gaussian_filter\<close> keeps the axes whose sigma is above \<^verbatim>\<open>1e-15\<close>,
  convolves along each of them, and copies the input to the output when no axis is
  left. \<^verbatim>\<open>show_map\<close> passes one sigma for both axes. The convolution is a parameter.
\<close>

definition gaussian_filter :: "gaussian_filter \<Rightarrow> gaussian_filter" where
  "gaussian_filter convolve img sigma = (if 1 / 10 ^ 15 < sigma then convolve img sigma else img)"

definition sigma_sm :: "real \<Rightarrow> real \<Rightarrow> real" where
  "sigma_sm fwhm reso = (fwhm / (2 * sqrt (2 * ln 2))) / reso"

definition gaussian_smoothing :: "gaussian_filter \<Rightarrow> image \<Rightarrow> real \<Rightarrow> real \<Rightarrow> image" where
  "gaussian_smoothing gf img fwhm reso = gf img (sigma_sm fwhm reso)"

definition significance_boost :: "image \<Rightarrow> real \<Rightarrow> image" where
  "significance_boost img sigma =
     (let norm = 2 * sigma * sqrt pi in map (map (\<lambda>p. p * norm)) img)"

text \<open>The image after the smoothing block (lines 263 to 271).\<close>

definition smooth_image ::
  "gaussian_filter \<Rightarrow> image \<Rightarrow> real \<Rightarrow> real \<Rightarrow> bool \<Rightarrow> image" where
  "smooth_image gf img fwhm reso signif =
     (let img' = gaussian_smoothing gf img fwhm reso
      in if signif then significance_boost img' (sigma_sm fwhm reso) else img')"

definition boost_warning :: "string list" where
  "boost_warning =
     [''WARNING: The significance is boosted accounting for smoothing.'',
      ''         This assumes weak noise spatial variarion (w.r.t. smoothing), gaussian regime, and uncorrelated pixels.'']"

definition empty_map_warning :: "string \<Rightarrow> string" where
  "empty_map_warning outfile =
     ''!!!!!!!!!! WARNING: empty map, '' @ outfile @ '' was not created''"

text \<open>\<^verbatim>\<open>np.amax\<close> and \<^verbatim>\<open>np.amin\<close> raise ValueError on an array with no element.\<close>

definition amax :: "image \<Rightarrow> error + real" where
  "amax img = (case concat img of [] \<Rightarrow> Inl ValueError | p # ps \<Rightarrow> Inr (fold max ps p))"

definition amin :: "image \<Rightarrow> error + real" where
  "amin img = (case concat img of [] \<Rightarrow> Inl ValueError | p # ps \<Rightarrow> Inr (fold min ps p))"

text \<open>
  The test of line 285, \<^verbatim>\<open>(np.amax(image) == 0) and (np.amin(image) == 0)\<close>; the
  minimum is computed only when the maximum is zero.
\<close>

definition empty_map :: "image \<Rightarrow> error + bool" where
  "empty_map img =
     (case amax img of
        Inl err \<Rightarrow> Inl err
      | Inr hi \<Rightarrow>
          if hi = 0 then (case amin img of Inl err \<Rightarrow> Inl err | Inr lo \<Rightarrow> Inr (lo = 0))
          else Inr False)"

definition show_cluster_t500 :: "real option \<Rightarrow> real option \<Rightarrow> real option \<Rightarrow> artist list" where
  "show_cluster_t500 t500 ra dec =
     (case (t500, ra, dec) of
        (Some t, Some r, Some d) \<Rightarrow>
          (let circle_rad = 2 * t / cos (d * pi / 180) in
           [Ellipse (r, d) circle_rad (2 * t) 2 False ''lightgray'' ''none'',
            Text (PyFloat (r - t)) (PyFloat (d - t)) ''$R_{500}$'' 10 ''lightgray''])
      | _ \<Rightarrow> [])"

text \<open>
  The pointing block (lines 312 to 325). \<^verbatim>\<open>ax.scatter\<close> ravels both arguments and
  raises ValueError when they differ in size; a float has size one. Then
  \<^verbatim>\<open>ptg_dec+0.2\<close> raises TypeError on a list; the bare \<^verbatim>\<open>except\<close> indexes both
  arguments, which raises in turn when \<^verbatim>\<open>ptg_ra\<close> is a float or when a list is empty.
\<close>

fun pysize :: "pyval \<Rightarrow> nat" where
  "pysize (PyFloat _) = 1"
| "pysize (PyList xs) = length xs"

definition show_pointing :: "pyval option \<Rightarrow> pyval option \<Rightarrow> error + artist list" where
  "show_pointing ra dec =
     (case (ra, dec) of
        (Some x, Some y) \<Rightarrow>
          if pysize x \<noteq> pysize y then Inl ValueError
          else
          (case y of
             PyFloat d \<Rightarrow>
               Inr [Scatter x y ''x'' 100 ''white'' ''white'',
                    Text x (PyFloat (d + 0.2)) ''Pointing'' 10 ''white'']
           | PyList ds \<Rightarrow>
               (case x of
                  PyFloat _ \<Rightarrow> Inl TypeError
                | PyList [] \<Rightarrow> Inl IndexError
                | PyList (r # _) \<Rightarrow>
                    (case ds of
                       [] \<Rightarrow> Inl IndexError
                     | d # _ \<Rightarrow>
                         Inr [Scatter x y ''x'' 100 ''white'' ''white'',
                              Text (PyFloat r) (PyFloat (d + 0.2)) ''Pointings'' 10 ''white''])))
      | _ \<Rightarrow> Inr [])"

definition show_cluster_center :: "real option \<Rightarrow> real option \<Rightarrow> string \<Rightarrow> artist list" where
  "show_cluster_center ra dec name =
     (case (ra, dec) of
        (Some r, Some d) \<Rightarrow>
          [Scatter (PyFloat r) (PyFloat d) ''x'' 100 ''cyan'' ''cyan'',
           Text (PyFloat r) (PyFloat (d - 0.2)) name 10 ''cyan'']
      | _ \<Rightarrow> [])"

text \<open>
  One pass of the point-source loop (lines 338 to 344) and the loop over the indices
  \<^verbatim>\<open>range(len(ps_name))\<close>. Both \<^verbatim>\<open>ps_ra[i]\<close> and \<^verbatim>\<open>ps_dec[i]\<close> are read before the
  test, so a shorter list raises IndexError.
\<close>

definition point_source :: "string \<Rightarrow> real option \<Rightarrow> real option \<Rightarrow> artist list" where
  "point_source name ra dec =
     (case (ra, dec) of
        (Some r, Some d) \<Rightarrow>
          [Scatter (PyFloat r) (PyFloat d) ''o'' 200 ''none'' ''green'',
           Text (PyFloat (r - 0.1)) (PyFloat (d + 0.1)) name 10 ''green'']
      | _ \<Rightarrow> [])"

fun point_sources_loop ::
  "string list \<Rightarrow> real option list \<Rightarrow> real option list \<Rightarrow> nat list \<Rightarrow> error + artist list" where
  "point_sources_loop names ras decs [] = Inr []"
| "point_sources_loop names ras decs (i # rest) =
     (if length ras \<le> i \<or> length decs \<le> i then Inl IndexError
      else (case point_sources_loop names ras decs rest of
              Inl err \<Rightarrow> Inl err
            | Inr arts \<Rightarrow> Inr (point_source (names ! i) (ras ! i) (decs ! i) @ arts)))"

definition show_point_sources ::
  "string list \<Rightarrow> real option list \<Rightarrow> real option list \<Rightarrow> error + artist list" where
  "show_point_sources names ras decs = point_sources_loop names ras decs [0..<length names]"

definition show_PSF :: "wcs \<Rightarrow> real option \<Rightarrow> artist list" where
  "show_PSF w psf =
     (case psf of
        None \<Rightarrow> []
      | Some p \<Rightarrow>
          (let dec_mean_cor = cos ((snd (crval w) - snd (crpix w) * snd (cdelt w) + 0.3) * pi / 180);
               circle_ra = fst (crval w) - fst (crpix w) * fst (cdelt w) / dec_mean_cor - 0.3;
               circle_dec = snd (crval w) - snd (crpix w) * snd (cdelt w) + 0.3;
               txt_ra = fst (crval w) - fst (crpix w) * fst (cdelt w) / dec_mean_cor - 0.6;
               txt_dec = snd (crval w) - snd (crpix w) * snd (cdelt w) + 0.3
           in [Text (PyFloat txt_ra) (PyFloat txt_dec) ''PSF'' 12 ''white'',
               Ellipse (circle_ra, circle_dec) (p / dec_mean_cor) p 1 True
                 ''white'' ''lightgray'']))"

definition failed :: "string list \<Rightarrow> error \<Rightarrow> outcome" where
  "failed out err = \<lparr>stdout = out, saved = None, raised = Some err\<rparr>"

definition show_map :: "gaussian_filter \<Rightarrow> hdu \<Rightarrow> string \<Rightarrow> show_map_args \<Rightarrow> outcome" where
  "show_map gf mapfile outfile a =
     (let wcs_map = header mapfile;
          reso = \<bar>fst (cdelt wcs_map)\<bar>;
          img = smooth_image gf (data mapfile) (smoothing_FWHM a) reso (significance a);
          out = (if significance a then boost_warning else [])
      in
      case (case fst (rangevalue a) of None \<Rightarrow> amin img | Some v \<Rightarrow> Inr v) of
        Inl err \<Rightarrow> failed out err
      | Inr vmin \<Rightarrow>
      (case (case snd (rangevalue a) of None \<Rightarrow> amax img | Some v \<Rightarrow> Inr v) of
        Inl err \<Rightarrow> failed out err
      | Inr vmax \<Rightarrow>
      (case empty_map img of
        Inl err \<Rightarrow> failed out err
      | Inr True \<Rightarrow>
          \<lparr>stdout = out @ [empty_map_warning outfile], saved = None, raised = None\<rparr>
      | Inr False \<Rightarrow>
      (case show_pointing (ptg_ra a) (ptg_dec a) of
        Inl err \<Rightarrow> failed out err
      | Inr pointing \<Rightarrow>
      (case show_point_sources (ps_name a) (ps_ra a) (ps_dec a) of
        Inl err \<Rightarrow> failed out err
      | Inr sources \<Rightarrow>
          \<lparr>stdout = out,
           saved = Some (outfile,
             \<lparr>artists =
                Imshow img (cmap a) (logscale a) vmin vmax
                # show_cluster_t500 (cluster_t500 a) (cluster_ra a) (cluster_dec a)
                @ pointing
                @ show_cluster_center (cluster_ra a) (cluster_dec a) (cluster_name a)
                @ sources
                @ show_PSF wcs_map (PSF a),
              xlabel = ''R.A. (deg)'', ylabel = ''Dec (deg)'', title = maptitle a,
              colorbar_label = bartitle a\<rparr>),
           raised = None\<rparr>)))))"

text \<open>Reading the figure back: the colour of an artist (the edge colour of a patch or marker).\<close>

fun artist_color :: "artist \<Rightarrow> string" where
  "artist_color (Imshow _ _ _ _ _) = []"
| "artist_color (Ellipse _ _ _ _ _ edgecolor _) = edgecolor"
| "artist_color (Scatter _ _ _ _ _ edgecolors) = edgecolors"
| "artist_color (Text _ _ _ _ color) = color"

fun is_text :: "artist \<Rightarrow> bool" where
  "is_text (Text _ _ _ _ _) = True"
| "is_text _ = False"

fun is_ellipse :: "artist \<Rightarrow> bool" where
  "is_ellipse (Ellipse _ _ _ _ _ _ _) = True"
| "is_ellipse _ = False"

fun fontsize :: "artist \<Rightarrow> real" where
  "fontsize (Text _ _ _ fs _) = fs"
| "fontsize _ = 0"

fun ellipse_width :: "artist \<Rightarrow> real" where
  "ellipse_width (Ellipse _ w _ _ _ _ _) = w"
| "ellipse_width _ = 0"

fun ellipse_height :: "artist \<Rightarrow> real" where
  "ellipse_height (Ellipse _ _ h _ _ _ _) = h"
| "ellipse_height _ = 0"

text \<open>
  What the theorems on all-zero images ask of scipy's filter: the output has the shape
  of the input, and an all-zero image stays all zero.
\<close>

definition all_zero :: "image \<Rightarrow> bool" where
  "all_zero img = list_all (\<lambda>p. p = 0) (concat img)"

definition shape_preserving :: "gaussian_filter \<Rightarrow> bool" where
  "shape_preserving gf = (\<forall>img sigma. map length (gf img sigma) = map length img)"

definition zero_preserving :: "gaussian_filter \<Rightarrow> bool" where
  "zero_preserving gf = (\<forall>img sigma. all_zero img \<longrightarrow> all_zero (gf img sigma))"

section \<open>\<^verbatim>\<open>Admin._check_obsID\<close>\<close>

text \<open>
  The argument \<^verbatim>\<open>obsID\<close> is \<^verbatim>\<open>None\<close>, a string, a list of Python objects (each a
  string or not), or something else. Of the object only \<^verbatim>\<open>self.obs_setup.obsid\<close> and
  \<^verbatim>\<open>self.silent\<close> are read.
\<close>

datatype pyobj = PyStr string | PyNonStr

datatype obsID_arg = ObsNone | ObsStr string | ObsList "pyobj list" | ObsOther

record obs_setup_t =
  obsid :: "string list"

record Admin =
  obs_setup :: obs_setup_t
  silent :: bool

definition missing_warning :: "string \<Rightarrow> string" where
  "missing_warning s = ''WARNING: obsID '' @ s @ '' does not exist, ignore it''"

text \<open>
  The loop of lines 66 to 74: the lines printed, and either the ValueError of the type
  check or the array \<^verbatim>\<open>good\<close>.
\<close>

fun flag_obsID :: "Admin \<Rightarrow> pyobj list \<Rightarrow> string list \<times> (error + bool list)" where
  "flag_obsID self [] = ([], Inr [])"
| "flag_obsID self (PyNonStr # rest) = ([], Inl ValueError)"
| "flag_obsID self (PyStr s # rest) =
     (let valid = (s \<in> set (obsid (obs_setup self)));
          line = (if \<not> valid \<and> \<not> silent self then [missing_warning s] else []);
          (out, r) = flag_obsID self rest
      in (line @ out, case r of Inl err \<Rightarrow> Inl err | Inr good \<Rightarrow> Inr (valid # good)))"

fun str_values :: "pyobj list \<Rightarrow> string list" where
  "str_values [] = []"
| "str_values (PyStr s # rest) = s # str_values rest"
| "str_values (PyNonStr # rest) = str_values rest"

text \<open>
  \<^verbatim>\<open>np.array(obsID)\<close> stores the strings in a fixed-width array, and reading an entry
  back drops the NUL characters at its end. The test of line 72 reads the Python list;
  the entries returned (line 80) are read from the array.
\<close>

definition np_str :: "string \<Rightarrow> string" where
  "np_str s = rev (dropWhile (\<lambda>c. c = CHR 0x00) (rev s))"

text \<open>
  \<^verbatim>\<open>list(set(obsID))\<close> keeps one copy of each entry in an order Python does not fix;
  \<open>remdups\<close> is one such order, and the theorems below do not depend on it.
\<close>

definition check_obsID :: "Admin \<Rightarrow> obsID_arg \<Rightarrow> string list \<times> (error + string list)" where
  "check_obsID self obsID =
     (case obsID of
        ObsNone \<Rightarrow> ([], Inr (obsid (obs_setup self)))
      | ObsStr s \<Rightarrow>
          if s \<in> set (obsid (obs_setup self)) then ([], Inr [s]) else ([], Inl ValueError)
      | ObsList l \<Rightarrow>
          (case flag_obsID self l of
             (out, Inl err) \<Rightarrow> (out, Inl err)
           | (out, Inr good) \<Rightarrow>
               if length (filter id good) = 0 then (out, Inl ValueError)
               else (out, Inr (remdups (mask_select good (map np_str (str_values l))))))
      | ObsOther \<Rightarrow> ([], Inl ValueError))"

section \<open>Sample inputs\<close>

text \<open>
  The inputs at which the theorems are applied. \<open>exact_numpy\<close> computes the grid
  without rounding. \<open>poly_interp1d\<close> refuses what scipy's cubic \<^verbatim>\<open>interp1d\<close> refuses
  (fewer than four samples, lists of different length, repeated abscissas, points
  outside the range of the samples) and evaluates the polynomial through the samples
  elsewhere; for four samples that polynomial is the cubic spline scipy builds. The
  stand-in for the Gaussian convolution divides every pixel by \<open>1 + sigma\<close> when
  \<open>sigma\<close> is positive.
\<close>

definition exact_numpy :: numpy where
  "exact_numpy = \<lparr>np_log10 = log 10, np_pow10 = (\<lambda>y. 10 powr y)\<rparr>"

definition logspace_point :: "real \<Rightarrow> real \<Rightarrow> nat \<Rightarrow> nat \<Rightarrow> real" where
  "logspace_point start stop num i = 10 powr linspace_point start stop num i"

definition lagrange :: "real list \<Rightarrow> real list \<Rightarrow> real \<Rightarrow> real" where
  "lagrange xs ys e =
     (\<Sum>i\<leftarrow>[0..<length xs]. ys ! i *
        (\<Prod>j\<leftarrow>[0..<length xs]. if j = i then 1 else (e - xs ! j) / (xs ! i - xs ! j)))"

definition poly_interp1d :: interp1d where
  "poly_interp1d xs ys =
     (if length xs < 4 \<or> length ys \<noteq> length xs \<or> \<not> distinct xs then Inl ValueError
      else Inr (\<lambda>e. if Min (set xs) \<le> e \<and> e \<le> Max (set xs) then Inr (lagrange xs ys e)
                    else Inl ValueError))"

definition stub_filter :: gaussian_filter where
  "stub_filter img sigma = (if 0 < sigma then map (map (\<lambda>p. p / (1 + sigma))) img else img)"

definition sample_irf :: data_PSF where
  "sample_irf =
     \<lparr>THETA_LO = [0, 1], THETA_HI = [1, 2],
      ENERG_LO = [1 / 2, 2, 8, 32], ENERG_HI = [2, 8, 32, 128],
      SIGMA_1 = [[1 / 10, 1 / 20, 1 / 40, 1 / 50], [1 / 5, 1 / 10, 1 / 20, 1 / 25]]\<rparr>"

definition two_sample_irf :: data_PSF where
  "two_sample_irf =
     \<lparr>THETA_LO = [0, 1], THETA_HI = [1, 2],
      ENERG_LO = [1 / 2, 8], ENERG_HI = [2, 32],
      SIGMA_1 = [[1 / 10, 1 / 40], [1 / 5, 1 / 20]]\<rparr>"

definition sample_wcs :: wcs where
  "sample_wcs = \<lparr>cdelt = (- 1 / 50, 1 / 50), crval = (83, 22), crpix = (1, 1)\<rparr>"

definition sample_map :: hdu where
  "sample_map = \<lparr>data = [[1, 2], [3, 4]], header = sample_wcs\<rparr>"

definition zero_map :: hdu where
  "zero_map = \<lparr>data = replicate 10 (replicate 10 0), header = sample_wcs\<rparr>"

definition boosted_args :: show_map_args where
  "boosted_args = default_args\<lparr>smoothing_FWHM := 2 * sqrt (2 * ln 2) / 50, significance := True\<rparr>"

definition cluster_args :: show_map_args where
  "cluster_args = default_args\<lparr>cluster_ra := Some 83, cluster_dec := Some 60,
     cluster_t500 := Some (1 / 2), cluster_name := ''Cluster''\<rparr>"

definition sources_args :: show_map_args where
  "sources_args = default_args\<lparr>ps_name := [''A'', ''B'', ''C''],
     ps_ra := [Some 83, None, Some 84], ps_dec := [Some 22, Some 21, Some 23]\<rparr>"

definition pointing_args :: show_map_args where
  "pointing_args = default_args\<lparr>ptg_ra := Some (PyFloat 83), ptg_dec := Some (PyFloat 22)\<rparr>"

definition pointings_args :: show_map_args where
  "pointings_args = default_args\<lparr>ptg_ra := Some (PyList [83, 84]), ptg_dec := Some (PyList [22, 23])\<rparr>"

definition sample_admin :: Admin where
  "sample_admin = \<lparr>obs_setup = \<lparr>obsid = [''001'', ''002'', ''003'']\<rparr>, silent = False\<rparr>"

section \<open>The PSF estimator: proofs\<close>

lemma mask_select_map:
  "mask_select (map P es) (map f es) = map f (filter P es)"
  by (induction es) (simp_all add: mask_select_def)

lemma eval_all_Inr:
  "(\<And>e. e \<in> set es \<Longrightarrow> fitpl e = Inr (w e)) \<Longrightarrow> eval_all fitpl es = Inr (map w es)"
  by (induction es) simp_all

lemma map2_same: "map2 f (map g xs) (map h xs) = map (\<lambda>x. f (g x) (h x)) xs"
  by (induction xs) simp_all

lemma np_add_same_length: "length xs = length ys \<Longrightarrow> np_add xs ys = Inr (map2 (+) xs ys)"
  by (simp add: np_add_def)

lemma half_sum: "map (\<lambda>x. x / 2) (map2 (+) xs ys) = map2 (\<lambda>lo hi. (lo + hi) / 2) xs (ys :: real list)"
  by (simp add: case_prod_unfold)

lemma get_cta_psf_returns:
  assumes th: "length (THETA_LO d) = length (THETA_HI d)"
    and es: "length (ENERG_LO d) = length (ENERG_HI d)"
    and sg: "SIGMA_1 d = PSF_E # rest"
    and ip: "interp1d_cubic (map2 (\<lambda>lo hi. (lo + hi) / 2) (ENERG_LO d) (ENERG_HI d)) PSF_E = Inr fitpl"
    and ev: "\<And>e. e \<in> set (logspace np (np_log10 np emin) (np_log10 np emax) 1000) \<Longrightarrow> fitpl e = Inr (width e)"
  shows "get_cta_psf np interp1d_cubic d emin emax slope =
     Inr (np_divide
       (sum_list (map (\<lambda>e. width e * 2 * sqrt (2 * ln 2) * e powr slope)
          (filter (\<lambda>e. emin < e \<and> e < emax) (logspace np (np_log10 np emin) (np_log10 np emax) 1000))))
       (sum_list (map (\<lambda>e. e powr slope)
          (filter (\<lambda>e. emin < e \<and> e < emax) (logspace np (np_log10 np emin) (np_log10 np emax) 1000)))))"
  (is "_ = ?rhs")
proof -
  let ?grid = "logspace np (np_log10 np emin) (np_log10 np emax) 1000"
  let ?P = "\<lambda>e. emin < e \<and> e < emax"
  have e: "eval_all fitpl ?grid = Inr (map width ?grid)"
    using ev by (rule eval_all_Inr)
  have s1: "mask_select (map ?P ?grid) (map (\<lambda>p. p * 2 * sqrt (2 * ln 2)) (map width ?grid))
      = map (\<lambda>e. width e * 2 * sqrt (2 * ln 2)) (filter ?P ?grid)"
    by (simp only: map_map comp_def mask_select_map)
  have s2: "mask_select (map ?P ?grid) ?grid = map (\<lambda>e. e) (filter ?P ?grid)"
    using mask_select_map[of ?P ?grid "\<lambda>e. e"] by simp
  have "get_cta_psf np interp1d_cubic d emin emax slope =
      Inr (np_divide
        (sum_list (map2 (\<lambda>p e. p * e powr slope)
           (mask_select (map ?P ?grid) (map (\<lambda>p. p * 2 * sqrt (2 * ln 2)) (map width ?grid)))
           (mask_select (map ?P ?grid) ?grid)))
        (sum_list (map (\<lambda>e. e powr slope) (mask_select (map ?P ?grid) ?grid))))"
    by (simp only: get_cta_psf_def np_add_same_length[OF th] np_add_same_length[OF es]
          half_sum sg ip e Let_def sum.case list.case)
  also have "\<dots> = ?rhs"
    by (simp only: s1 s2 map2_same) simp
  finally show ?thesis .
qed

lemma get_cta_psf_refused:
  assumes "length (THETA_LO d) = length (THETA_HI d)"
    and "length (ENERG_LO d) = length (ENERG_HI d)"
    and "SIGMA_1 d = PSF_E # rest"
    and "interp1d_cubic (map2 (\<lambda>lo hi. (lo + hi) / 2) (ENERG_LO d) (ENERG_HI d)) PSF_E = Inl err"
  shows "get_cta_psf np interp1d_cubic d emin emax slope = Inl err"
  by (simp only: get_cta_psf_def np_add_same_length[OF assms(1)] np_add_same_length[OF assms(2)]
          half_sum assms(3,4) Let_def sum.case list.case)

lemma logspace_first:
  "0 < n \<Longrightarrow> \<exists>es. logspace np a b n = np_pow10 np a # es"
  by (simp add: logspace_def linspace_def upt_conv_Cons linspace_point_def)

lemma get_cta_psf_point_refused:
  assumes "length (THETA_LO d) = length (THETA_HI d)"
    and "length (ENERG_LO d) = length (ENERG_HI d)"
    and "SIGMA_1 d = PSF_E # rest"
    and "interp1d_cubic (map2 (\<lambda>lo hi. (lo + hi) / 2) (ENERG_LO d) (ENERG_HI d)) PSF_E = Inr fitpl"
    and "fitpl (np_pow10 np (np_log10 np emin)) = Inl err"
  shows "get_cta_psf np interp1d_cubic d emin emax slope = Inl err"
proof -
  obtain es where g: "logspace np (np_log10 np emin) (np_log10 np emax) 1000
      = np_pow10 np (np_log10 np emin) # es"
    using logspace_first[of 1000 np "np_log10 np emin" "np_log10 np emax"] by auto
  have e: "eval_all fitpl (logspace np (np_log10 np emin) (np_log10 np emax) 1000) = Inl err"
    unfolding g by (simp add: assms(5))
  show ?thesis
    by (simp only: get_cta_psf_def np_add_same_length[OF assms(1)] np_add_same_length[OF assms(2)]
          half_sum assms(3,4) e Let_def sum.case list.case)
qed

lemma weight_sum_pos:
  assumes "es \<noteq> []" "\<And>e. e \<in> set es \<Longrightarrow> 0 < (e::real)"
  shows "0 < sum_list (map (\<lambda>e. e powr slope) es)"
proof -
  from assms(1) obtain a rest where c: "es = a # rest" by (cases es) auto
  have "0 < a powr slope" using assms(2)[of a] c by simp
  moreover have "0 \<le> sum_list (map (\<lambda>e. e powr slope) rest)"
    by (rule sum_list_nonneg) auto
  ultimately have "0 < a powr slope + sum_list (map (\<lambda>e. e powr slope) rest)"
    by (rule add_pos_nonneg)
  then show ?thesis unfolding c by simp
qed

lemma scipy_cubic_accepts:
  assumes "scipy_cubic ip" "4 \<le> length xs" "length ys = length xs" "sorted_wrt (<) xs"
    and "\<And>e. e \<in> set grid \<Longrightarrow> hd xs \<le> e \<and> e \<le> last xs"
  shows "\<exists>fitpl width. ip xs ys = Inr fitpl \<and> (\<forall>e \<in> set grid. fitpl e = Inr (width e))"
proof -
  from assms(1-4) obtain f where f: "ip xs ys = Inr f"
    and b: "\<And>e. hd xs \<le> e \<and> e \<le> last xs \<Longrightarrow> \<exists>w. f e = Inr w"
    unfolding scipy_cubic_def by (metis (no_types, lifting))
  have "\<forall>e \<in> set grid. \<exists>w. f e = Inr w"
    using b assms(5) by blast
  then obtain width where "\<forall>e \<in> set grid. f e = Inr (width e)"
    using bchoice[of "set grid" "\<lambda>e w. f e = Inr w"] by blast
  with f show ?thesis by blast
qed

lemma logspace_points:
  "logspace exact_numpy start stop num = map (logspace_point start stop num) [0..<num]"
  by (simp add: logspace_def linspace_def logspace_point_def exact_numpy_def)

lemma linspace_point_first: "linspace_point a b n 0 = a"
  by (simp add: linspace_point_def)

lemma linspace_point_last: "2 \<le> n \<Longrightarrow> linspace_point a b n (n - 1) = b"
  by (simp add: linspace_point_def)

lemma linspace_point_strict_mono:
  assumes "a < b" "2 \<le> n" "i < j"
  shows "linspace_point a b n i < linspace_point a b n j"
proof -
  have "0 < (b - a) / real (n - 1)" using assms by simp
  moreover have "real i < real j" using assms(3) by simp
  ultimately have "real i * ((b - a) / real (n - 1)) < real j * ((b - a) / real (n - 1))"
    by (rule mult_strict_right_mono[rotated])
  then show ?thesis by (simp add: linspace_point_def)
qed

lemma logspace_point_inside:
  assumes "0 < emin" "emin < emax" "2 \<le> n" "i < n"
  shows "(emin < logspace_point (log 10 emin) (log 10 emax) n i \<and>
          logspace_point (log 10 emin) (log 10 emax) n i < emax) = (0 < i \<and> i < n - 1)"
proof -
  let ?a = "log 10 emin" and ?b = "log 10 emax"
  let ?y = "linspace_point ?a ?b n"
  have ab: "?a < ?b" using assms by simp
  have lo: "emin = 10 powr ?y 0" using assms by (simp add: linspace_point_first)
  have "?y (n - 1) = ?b" using assms(3) by (rule linspace_point_last)
  then have hi: "emax = 10 powr ?y (n - 1)" using assms by simp
  have "(emin < 10 powr ?y i) = (?y 0 < ?y i)"
    by (subst lo) simp
  also have "\<dots> = (0 < i)"
    using linspace_point_strict_mono[OF ab assms(3), of 0 i] by (cases "i = 0") auto
  finally have 1: "(emin < 10 powr ?y i) = (0 < i)" .
  have "(10 powr ?y i < emax) = (?y i < ?y (n - 1))"
    by (subst hi) simp
  also have "\<dots> = (i < n - 1)"
    using linspace_point_strict_mono[OF ab assms(3), of i "n - 1"] assms(4)
    by (cases "i = n - 1") auto
  finally have 2: "(10 powr ?y i < emax) = (i < n - 1)" .
  show ?thesis unfolding logspace_point_def using 1 2 by simp
qed

lemma filter_upt_interior:
  "filter (\<lambda>i. 0 < i \<and> i < n - 1) [0..<n] = [1..<n - 1]"
proof (rule sorted_distinct_set_unique)
  show "set (filter (\<lambda>i. 0 < i \<and> i < n - 1) [0..<n]) = set [1..<n - 1]"
    by auto
qed (simp_all add: sorted_filter[where f = "\<lambda>x. x", simplified])

lemma filter_logspace_inside:
  assumes "0 < emin" "emin < emax" "2 \<le> n"
  shows "filter (\<lambda>e. emin < e \<and> e < emax) (logspace exact_numpy (log 10 emin) (log 10 emax) n)
         = map (logspace_point (log 10 emin) (log 10 emax) n) [1..<n - 1]"
proof -
  let ?E = "logspace_point (log 10 emin) (log 10 emax) n"
  have "filter (\<lambda>i. emin < ?E i \<and> ?E i < emax) [0..<n] = filter (\<lambda>i. 0 < i \<and> i < n - 1) [0..<n]"
    by (rule filter_cong) (simp_all add: logspace_point_inside[OF assms])
  also have "\<dots> = [1..<n - 1]"
    by (rule filter_upt_interior)
  finally show ?thesis
    by (simp add: logspace_points filter_map comp_def)
qed


lemma linspace_point_between:
  assumes "i < n"
  shows "min a b \<le> linspace_point a b n i \<and> linspace_point a b n i \<le> max a b"
proof -
  define c where "c = real i / real (n - 1)"
  have c0: "0 \<le> c" by (simp add: c_def)
  have c1: "c \<le> 1" using assms by (auto simp add: c_def divide_le_eq_1)
  have y: "linspace_point a b n i = (1 - c) * a + c * b"
    by (simp add: linspace_point_def c_def algebra_simps diff_divide_distrib)
  have "(1 - c) * a + c * b \<le> max a b"
    by (rule convex_bound_le) (use c0 c1 in simp_all)
  moreover have "(1 - c) * (- a) + c * (- b) \<le> max (- a) (- b)"
    by (rule convex_bound_le) (use c0 c1 in simp_all)
  then have "- ((1 - c) * a + c * b) \<le> - min a b"
    by (simp add: max_def min_def algebra_simps split: if_splits)
  then have "min a b \<le> (1 - c) * a + c * b"
    by linarith
  ultimately show ?thesis by (simp only: y) 
qed

lemma logspace_between:
  assumes "0 < emin" "0 < emax" "e \<in> set (logspace exact_numpy (log 10 emin) (log 10 emax) n)"
  shows "min emin emax \<le> e \<and> e \<le> max emin emax"
proof -
  from assms(3) obtain i where i: "i < n" and e: "e = 10 powr linspace_point (log 10 emin) (log 10 emax) n i"
    by (auto simp: logspace_points logspace_point_def)
  let ?y = "linspace_point (log 10 emin) (log 10 emax) n i"
  have b: "min (log 10 emin) (log 10 emax) \<le> ?y \<and> ?y \<le> max (log 10 emin) (log 10 emax)"
    using i by (rule linspace_point_between)
  have "10 powr min (log 10 emin) (log 10 emax) = min emin emax"
    using assms(1,2) by (simp add: min_def)
  moreover have "10 powr max (log 10 emin) (log 10 emax) = max emin emax"
    using assms(1,2) by (simp add: max_def)
  moreover have "10 powr min (log 10 emin) (log 10 emax) \<le> 10 powr ?y"
    using b by simp
  moreover have "10 powr ?y \<le> 10 powr max (log 10 emin) (log 10 emax)"
    using b by simp
  ultimately show ?thesis by (simp only: e) 
qed


lemma strict_sorted_hd_Min:
  assumes "sorted_wrt (<) xs" "xs \<noteq> []"
  shows "Min (set xs) = hd (xs :: real list)" "Max (set xs) = last xs"
proof -
  have s: "sorted xs" using assms(1) by (rule strict_sorted_imp_sorted)
  obtain a rest where c: "xs = a # rest" using assms(2) by (cases xs) auto
  show "Min (set xs) = hd xs"
    using s unfolding c by (auto intro!: Min_eqI)
  have "sorted (butlast xs @ [last xs])" using s assms(2) by simp
  then have "\<forall>x \<in> set (butlast xs). x \<le> last xs"
    by (simp only: sorted_append) simp
  moreover have "set xs = insert (last xs) (set (butlast xs))"
    using assms(2) by (metis append_butlast_last_id list.simps(15) rotate1.simps(2) set_rotate1)
  ultimately have "\<And>x. x \<in> set xs \<Longrightarrow> x \<le> last xs" by auto
  then show "Max (set xs) = last xs"
    using assms(2) by (auto intro!: Max_eqI)
qed

lemma poly_interp1d_scipy_cubic: "scipy_cubic poly_interp1d"
  unfolding scipy_cubic_def
proof (intro allI conjI impI)
  fix xs ys :: "real list"
  show "length xs < 4 \<Longrightarrow> poly_interp1d xs ys = Inl ValueError"
    by (simp add: poly_interp1d_def)
  assume a: "4 \<le> length xs \<and> length ys = length xs \<and> sorted_wrt (<) xs"
  then have ne: "xs \<noteq> []" by auto
  have d: "distinct xs" using a by (simp add: strict_sorted_iff)
  let ?f = "\<lambda>e. if Min (set xs) \<le> e \<and> e \<le> Max (set xs) then Inr (lagrange xs ys e)
                    else (Inl ValueError :: error + real)"
  have "poly_interp1d xs ys = Inr ?f"
    using a d by (simp add: poly_interp1d_def)
  moreover have "\<forall>e. if hd xs \<le> e \<and> e \<le> last xs then (\<exists>w. ?f e = Inr w) else ?f e = Inl ValueError"
    using strict_sorted_hd_Min[OF _ ne] a by simp
  ultimately show "\<exists>f. poly_interp1d xs ys = Inr f \<and>
              (\<forall>e. if hd xs \<le> e \<and> e \<le> last xs then (\<exists>w. f e = Inr w)
                   else f e = Inl ValueError)"
    by blast
qed

lemma get_cta_psf_on_grid:
  assumes "scipy_cubic interp1d_cubic"
    and "length (THETA_LO d) = length (THETA_HI d)"
    and "length (ENERG_LO d) = length (ENERG_HI d)"
    and "SIGMA_1 d = PSF_E # rest"
    and "length PSF_E = length (ENERG_LO d)"
    and "4 \<le> length (ENERG_LO d)"
    and "sorted_wrt (<) (map2 (\<lambda>lo hi. (lo + hi) / 2) (ENERG_LO d) (ENERG_HI d))"
    and "\<forall>e \<in> set (logspace np (np_log10 np emin) (np_log10 np emax) 1000).
           hd (map2 (\<lambda>lo hi. (lo + hi) / 2) (ENERG_LO d) (ENERG_HI d)) \<le> e
         \<and> e \<le> last (map2 (\<lambda>lo hi. (lo + hi) / 2) (ENERG_LO d) (ENERG_HI d))"
  shows "\<exists>fitpl width.
      interp1d_cubic (map2 (\<lambda>lo hi. (lo + hi) / 2) (ENERG_LO d) (ENERG_HI d)) PSF_E = Inr fitpl
    \<and> (\<forall>e \<in> set (logspace np (np_log10 np emin) (np_log10 np emax) 1000). fitpl e = Inr (width e))
    \<and> get_cta_psf np interp1d_cubic d emin emax slope =
     Inr (np_divide
       (sum_list (map (\<lambda>e. width e * 2 * sqrt (2 * ln 2) * e powr slope)
          (filter (\<lambda>e. emin < e \<and> e < emax) (logspace np (np_log10 np emin) (np_log10 np emax) 1000))))
       (sum_list (map (\<lambda>e. e powr slope)
          (filter (\<lambda>e. emin < e \<and> e < emax) (logspace np (np_log10 np emin) (np_log10 np emax) 1000)))))"
proof -
  let ?xs = "map2 (\<lambda>lo hi. (lo + hi) / 2) (ENERG_LO d) (ENERG_HI d)"
  let ?grid = "logspace np (np_log10 np emin) (np_log10 np emax) 1000"
  have l: "4 \<le> length ?xs" "length PSF_E = length ?xs"
    using assms(3,5,6) by simp_all
  from scipy_cubic_accepts[OF assms(1) l assms(7), of ?grid] assms(8)
  obtain fitpl width where f: "interp1d_cubic ?xs PSF_E = Inr fitpl"
    and w: "\<forall>e \<in> set ?grid. fitpl e = Inr (width e)"
    by blast
  from get_cta_psf_returns[where width = width and interp1d_cubic = interp1d_cubic
      and np = np and emin = emin and emax = emax and slope = slope, OF assms(2,3,4) f] w
  show ?thesis using f by blast
qed

lemma get_cta_psf_empty_range:
  assumes "scipy_cubic interp1d_cubic"
    and "length (THETA_LO d) = length (THETA_HI d)"
    and "length (ENERG_LO d) = length (ENERG_HI d)"
    and "SIGMA_1 d = PSF_E # rest"
    and "length PSF_E = length (ENERG_LO d)"
    and "4 \<le> length (ENERG_LO d)"
    and "sorted_wrt (<) (map2 (\<lambda>lo hi. (lo + hi) / 2) (ENERG_LO d) (ENERG_HI d))"
    and "\<forall>e \<in> set (logspace np (np_log10 np emin) (np_log10 np emax) 1000).
           hd (map2 (\<lambda>lo hi. (lo + hi) / 2) (ENERG_LO d) (ENERG_HI d)) \<le> e
         \<and> e \<le> last (map2 (\<lambda>lo hi. (lo + hi) / 2) (ENERG_LO d) (ENERG_HI d))"
    and "emax \<le> emin"
  shows "get_cta_psf np interp1d_cubic d emin emax slope = Inr NaN"
proof -
  have "filter (\<lambda>e. emin < e \<and> e < emax) (logspace np (np_log10 np emin) (np_log10 np emax) 1000) = []"
    using assms(9) by (auto simp: filter_empty_conv)
  then show ?thesis
    using get_cta_psf_on_grid[OF assms(1-8), of slope]
    by (auto simp: np_divide_def)
qed

text \<open>
  Claim C1, as amended. For a calibration curve of at least four strictly increasing
  on-axis samples, a positive range \<open>emin < emax\<close> and a 1000-point logarithmic grid
  whose points all lie within the range of the samples, \<open>get_cta_psf\<close> returns the
  weighted mean \<open>\<Sum> width\<^sub>i E\<^sub>i\<^sup>s / \<Sum> E\<^sub>i\<^sup>s\<close> with \<open>s\<close> the weight slope: the \<open>E\<^sub>i\<close> are the
  grid points strictly inside \<open>(emin, emax)\<close>, and \<open>width\<^sub>i\<close> is the interpolant of the
  samples at \<open>E\<^sub>i\<close> times \<open>2 sqrt (2 ln 2)\<close>. The quotient is numpy's; it is a number,
  with a positive sum of weights, as soon as one grid point passes the mask. Whether
  an end point of the grid passes depends on the rounding of \<^verbatim>\<open>np.log10\<close> and
  \<^verbatim>\<open>10 ** y\<close>, which the statement leaves open.
\<close>

theorem get_cta_psf_weighted_mean:
  fixes d :: data_PSF and np :: numpy and emin emax :: real
  defines "eng_mean \<equiv> map2 (\<lambda>lo hi. (lo + hi) / 2) (ENERG_LO d) (ENERG_HI d)"
  defines "e_itpl \<equiv> logspace np (np_log10 np emin) (np_log10 np emax) 1000"
  defines "inside \<equiv> filter (\<lambda>e. emin < e \<and> e < emax) e_itpl"
  assumes "scipy_cubic interp1d_cubic"
    and "length (THETA_LO d) = length (THETA_HI d)"
    and "length (ENERG_LO d) = length (ENERG_HI d)"
    and "SIGMA_1 d = PSF_E # rest"
    and "length PSF_E = length (ENERG_LO d)"
    and "4 \<le> length (ENERG_LO d)"
    and "sorted_wrt (<) eng_mean"
    and "0 < emin" and "emin < emax"
    and "\<forall>e \<in> set e_itpl. hd eng_mean \<le> e \<and> e \<le> last eng_mean"
  shows "\<exists>fitpl width.
      interp1d_cubic eng_mean PSF_E = Inr fitpl
    \<and> length e_itpl = 1000
    \<and> (\<forall>e \<in> set e_itpl. fitpl e = Inr (width e))
    \<and> get_cta_psf np interp1d_cubic d emin emax slope =
        Inr (np_divide
          (\<Sum>e\<leftarrow>inside. width e * 2 * sqrt (2 * ln 2) * e powr slope)
          (\<Sum>e\<leftarrow>inside. e powr slope))
    \<and> (inside \<noteq> [] \<longrightarrow>
          0 < (\<Sum>e\<leftarrow>inside. e powr slope)
        \<and> get_cta_psf np interp1d_cubic d emin emax slope =
            Inr (Finite ((\<Sum>e\<leftarrow>inside. width e * 2 * sqrt (2 * ln 2) * e powr slope) /
                         (\<Sum>e\<leftarrow>inside. e powr slope))))"
proof -
  note a = assms(4-13)[unfolded eng_mean_def e_itpl_def]
  from get_cta_psf_on_grid[OF a(1-7) a(10), of slope]
  obtain fitpl width where f: "interp1d_cubic eng_mean PSF_E = Inr fitpl"
    and w: "\<forall>e \<in> set e_itpl. fitpl e = Inr (width e)"
    and r: "get_cta_psf np interp1d_cubic d emin emax slope =
        Inr (np_divide
          (\<Sum>e\<leftarrow>inside. width e * 2 * sqrt (2 * ln 2) * e powr slope)
          (\<Sum>e\<leftarrow>inside. e powr slope))"
    unfolding eng_mean_def e_itpl_def inside_def by blast
  have n: "length e_itpl = 1000"
    by (simp add: e_itpl_def logspace_def linspace_def)
  have p: "0 < (\<Sum>e\<leftarrow>inside. e powr slope)" if "inside \<noteq> []"
  proof (rule weight_sum_pos[OF that])
    fix e assume "e \<in> set inside"
    then have "emin < e" by (simp add: inside_def)
    then show "0 < e" using assms(11) by simp
  qed
  have "inside \<noteq> [] \<longrightarrow>
          0 < (\<Sum>e\<leftarrow>inside. e powr slope)
        \<and> get_cta_psf np interp1d_cubic d emin emax slope =
            Inr (Finite ((\<Sum>e\<leftarrow>inside. width e * 2 * sqrt (2 * ln 2) * e powr slope) /
                         (\<Sum>e\<leftarrow>inside. e powr slope)))"
  proof
    assume i: "inside \<noteq> []"
    from p[OF i] have "(\<Sum>e\<leftarrow>inside. e powr slope) \<noteq> 0" by simp
    then show "0 < (\<Sum>e\<leftarrow>inside. e powr slope)
        \<and> get_cta_psf np interp1d_cubic d emin emax slope =
            Inr (Finite ((\<Sum>e\<leftarrow>inside. width e * 2 * sqrt (2 * ln 2) * e powr slope) /
                         (\<Sum>e\<leftarrow>inside. e powr slope)))"
      using p[OF i] r by (simp add: np_divide_def)
  qed
  with f w r n show ?thesis by blast
qed

lemma sample_irf_facts:
  "length (THETA_LO sample_irf) = length (THETA_HI sample_irf)"
  "length (ENERG_LO sample_irf) = length (ENERG_HI sample_irf)"
  "SIGMA_1 sample_irf = [1 / 10, 1 / 20, 1 / 40, 1 / 50] # [[1 / 5, 1 / 10, 1 / 20, 1 / 25]]"
  "length [1 / 10, 1 / 20, 1 / 40, 1 / 50 :: real] = length (ENERG_LO sample_irf)"
  "4 \<le> length (ENERG_LO sample_irf)"
  "map2 (\<lambda>lo hi. (lo + hi) / 2) (ENERG_LO sample_irf) (ENERG_HI sample_irf) = [5 / 4, 5, 20, 80]"
  by (simp_all add: sample_irf_def)

lemma sample_irf_sorted:
  "sorted_wrt (<) (map2 (\<lambda>lo hi. (lo + hi) / 2) (ENERG_LO sample_irf) (ENERG_HI sample_irf))"
  by (simp add: sample_irf_facts(6))

lemma sample_grid_in_range:
  assumes "2 \<le> emin" "emin \<le> 10" "2 \<le> emax" "emax \<le> 10"
  shows "\<forall>e \<in> set (logspace exact_numpy (np_log10 exact_numpy emin) (np_log10 exact_numpy emax) 1000).
     hd (map2 (\<lambda>lo hi. (lo + hi) / 2) (ENERG_LO sample_irf) (ENERG_HI sample_irf)) \<le> e
   \<and> e \<le> last (map2 (\<lambda>lo hi. (lo + hi) / 2) (ENERG_LO sample_irf) (ENERG_HI sample_irf))"
proof
  fix e assume "e \<in> set (logspace exact_numpy (np_log10 exact_numpy emin) (np_log10 exact_numpy emax) 1000)"
  then have "e \<in> set (logspace exact_numpy (log 10 emin) (log 10 emax) 1000)"
    by (simp add: exact_numpy_def)
  then have "min emin emax \<le> e \<and> e \<le> max emin emax"
    using assms by (intro logspace_between) simp_all
  then show "hd (map2 (\<lambda>lo hi. (lo + hi) / 2) (ENERG_LO sample_irf) (ENERG_HI sample_irf)) \<le> e
   \<and> e \<le> last (map2 (\<lambda>lo hi. (lo + hi) / 2) (ENERG_LO sample_irf) (ENERG_HI sample_irf))"
    using assms by (simp add: sample_irf_facts(6) min_def max_def split: if_splits)
qed

lemma sample_inside_nonempty:
  "filter (\<lambda>e. 2 < e \<and> e < 10) (logspace exact_numpy (np_log10 exact_numpy 2) (np_log10 exact_numpy 10) 1000) \<noteq> []"
proof -
  have e: "np_log10 exact_numpy = log 10" by (simp add: exact_numpy_def)
  have f: "filter (\<lambda>e. 2 < e \<and> e < 10) (logspace exact_numpy (log 10 2) (log 10 10) 1000)
      = map (logspace_point (log 10 2) (log 10 10) 1000) [1..<1000 - 1]"
    by (rule filter_logspace_inside) simp_all
  show ?thesis
    unfolding e f map_is_Nil_conv upt_eq_Nil_conv by simp
qed

text \<open>
  Four samples, the range \<open>[2, 10]\<close> inside them, and a grid computed without rounding.
\<close>

theorem get_cta_psf_weighted_mean_witness:
  "\<exists>fitpl width.
      poly_interp1d [5 / 4, 5, 20, 80] [1 / 10, 1 / 20, 1 / 40, 1 / 50] = Inr fitpl
    \<and> (\<forall>e \<in> set (logspace exact_numpy (np_log10 exact_numpy 2) (np_log10 exact_numpy 10) 1000).
          fitpl e = Inr (width e))
    \<and> filter (\<lambda>e. 2 < e \<and> e < 10)
         (logspace exact_numpy (np_log10 exact_numpy 2) (np_log10 exact_numpy 10) 1000) \<noteq> []
    \<and> get_cta_psf exact_numpy poly_interp1d sample_irf 2 10 (- 2) =
        Inr (Finite
          ((\<Sum>e\<leftarrow>filter (\<lambda>e. 2 < e \<and> e < 10)
                (logspace exact_numpy (np_log10 exact_numpy 2) (np_log10 exact_numpy 10) 1000).
              width e * 2 * sqrt (2 * ln 2) * e powr (- 2)) /
           (\<Sum>e\<leftarrow>filter (\<lambda>e. 2 < e \<and> e < 10)
                (logspace exact_numpy (np_log10 exact_numpy 2) (np_log10 exact_numpy 10) 1000).
              e powr (- 2))))"
proof -
  have g: "\<forall>e \<in> set (logspace exact_numpy (np_log10 exact_numpy 2) (np_log10 exact_numpy 10) 1000).
     hd (map2 (\<lambda>lo hi. (lo + hi) / 2) (ENERG_LO sample_irf) (ENERG_HI sample_irf)) \<le> e
   \<and> e \<le> last (map2 (\<lambda>lo hi. (lo + hi) / 2) (ENERG_LO sample_irf) (ENERG_HI sample_irf))"
    by (rule sample_grid_in_range) simp_all
  from get_cta_psf_weighted_mean[OF poly_interp1d_scipy_cubic sample_irf_facts(1-5)
      sample_irf_sorted _ _ g, of "- 2"]
  obtain fitpl width where
    "poly_interp1d (map2 (\<lambda>lo hi. (lo + hi) / 2) (ENERG_LO sample_irf) (ENERG_HI sample_irf))
       [1 / 10, 1 / 20, 1 / 40, 1 / 50] = Inr fitpl"
    "\<forall>e \<in> set (logspace exact_numpy (np_log10 exact_numpy 2) (np_log10 exact_numpy 10) 1000).
          fitpl e = Inr (width e)"
    "filter (\<lambda>e. 2 < e \<and> e < 10)
         (logspace exact_numpy (np_log10 exact_numpy 2) (np_log10 exact_numpy 10) 1000) \<noteq> [] \<longrightarrow>
     get_cta_psf exact_numpy poly_interp1d sample_irf 2 10 (- 2) =
        Inr (Finite
          ((\<Sum>e\<leftarrow>filter (\<lambda>e. 2 < e \<and> e < 10)
                (logspace exact_numpy (np_log10 exact_numpy 2) (np_log10 exact_numpy 10) 1000).
              width e * 2 * sqrt (2 * ln 2) * e powr (- 2)) /
           (\<Sum>e\<leftarrow>filter (\<lambda>e. 2 < e \<and> e < 10)
                (logspace exact_numpy (np_log10 exact_numpy 2) (np_log10 exact_numpy 10) 1000).
              e powr (- 2))))"
    by auto
  then show ?thesis
    using sample_inside_nonempty by (simp only: sample_irf_facts(6)) blast
qed

lemma two_sample_refused:
  "length (THETA_LO two_sample_irf) = length (THETA_HI two_sample_irf)"
  "length (ENERG_LO two_sample_irf) = length (ENERG_HI two_sample_irf)"
  "SIGMA_1 two_sample_irf = [1 / 10, 1 / 40] # [[1 / 5, 1 / 20]]"
  "poly_interp1d (map2 (\<lambda>lo hi. (lo + hi) / 2) (ENERG_LO two_sample_irf) (ENERG_HI two_sample_irf))
      [1 / 10, 1 / 40] = Inl ValueError"
  by (simp_all add: two_sample_irf_def poly_interp1d_def)

lemma sample_point_refused:
  "\<exists>fitpl. poly_interp1d (map2 (\<lambda>lo hi. (lo + hi) / 2) (ENERG_LO sample_irf) (ENERG_HI sample_irf))
      [1 / 10, 1 / 20, 1 / 40, 1 / 50] = Inr fitpl
    \<and> fitpl (np_pow10 exact_numpy (np_log10 exact_numpy 1)) = Inl ValueError"
  by (simp add: sample_irf_def poly_interp1d_def exact_numpy_def)

text \<open>
  Two inputs at which the call raises ValueError instead of returning the mean: a curve
  of two strictly increasing samples with the range \<open>[2, 10]\<close> inside them, which the
  cubic interpolation refuses; and the four-sample curve with the range \<open>[1, 10]\<close>,
  whose first grid point \<open>1\<close> lies below the first sample \<open>5 / 4\<close>.
\<close>

theorem get_cta_psf_two_samples_counterexample:
  "map2 (\<lambda>lo hi. (lo + hi) / 2) (ENERG_LO two_sample_irf) (ENERG_HI two_sample_irf) = [5 / 4, 20]
   \<and> get_cta_psf exact_numpy poly_interp1d two_sample_irf 2 10 (- 2) = Inl ValueError
   \<and> map2 (\<lambda>lo hi. (lo + hi) / 2) (ENERG_LO sample_irf) (ENERG_HI sample_irf) = [5 / 4, 5, 20, 80]
   \<and> get_cta_psf exact_numpy poly_interp1d sample_irf 1 10 (- 2) = Inl ValueError"
proof -
  from sample_point_refused obtain fitpl where
    f: "poly_interp1d (map2 (\<lambda>lo hi. (lo + hi) / 2) (ENERG_LO sample_irf) (ENERG_HI sample_irf))
      [1 / 10, 1 / 20, 1 / 40, 1 / 50] = Inr fitpl"
      "fitpl (np_pow10 exact_numpy (np_log10 exact_numpy 1)) = Inl ValueError"
    by blast
  have 1: "get_cta_psf exact_numpy poly_interp1d sample_irf 1 10 (- 2) = Inl ValueError"
    using get_cta_psf_point_refused[where interp1d_cubic = poly_interp1d and np = exact_numpy
      and emin = 1 and emax = 10 and slope = "- 2" and fitpl = fitpl, OF sample_irf_facts(1-3) f] .
  have 2: "get_cta_psf exact_numpy poly_interp1d two_sample_irf 2 10 (- 2) = Inl ValueError"
    using get_cta_psf_refused[where interp1d_cubic = poly_interp1d and np = exact_numpy
      and emin = 2 and emax = 10 and slope = "- 2", OF two_sample_refused] .
  show ?thesis using 1 2 by (simp add: two_sample_irf_def sample_irf_def)
qed

text \<open>
  Claim C4, as amended. \<open>get_cta_psf\<close> has no check of the range. For a curve of at
  least four strictly increasing samples and a positive range with \<open>emax \<le> emin\<close>
  whose grid lies within the range of the samples, no grid point passes the mask,
  both sums are empty, and the call returns the NaN of \<open>0 / 0\<close>.
\<close>

theorem get_cta_psf_degenerate_range:
  fixes d :: data_PSF and np :: numpy and emin emax :: real
  defines "eng_mean \<equiv> map2 (\<lambda>lo hi. (lo + hi) / 2) (ENERG_LO d) (ENERG_HI d)"
  defines "e_itpl \<equiv> logspace np (np_log10 np emin) (np_log10 np emax) 1000"
  assumes "scipy_cubic interp1d_cubic"
    and "length (THETA_LO d) = length (THETA_HI d)"
    and "length (ENERG_LO d) = length (ENERG_HI d)"
    and "SIGMA_1 d = PSF_E # rest"
    and "length PSF_E = length (ENERG_LO d)"
    and "4 \<le> length (ENERG_LO d)"
    and "sorted_wrt (<) eng_mean"
    and "\<forall>e \<in> set e_itpl. hd eng_mean \<le> e \<and> e \<le> last eng_mean"
    and "0 < emax" and "emax \<le> emin"
  shows "filter (\<lambda>e. emin < e \<and> e < emax) e_itpl = []
    \<and> get_cta_psf np interp1d_cubic d emin emax slope = Inr NaN"
proof -
  note a = assms(3-12)[unfolded eng_mean_def e_itpl_def]
  have "filter (\<lambda>e. emin < e \<and> e < emax) e_itpl = []"
    using a(10) by (auto simp: filter_empty_conv)
  then show ?thesis
    using get_cta_psf_empty_range[OF a(1-8) a(10), of slope] by simp
qed

text \<open>The inverted range \<open>[10, 2]\<close> on the four-sample curve.\<close>

theorem get_cta_psf_degenerate_range_witness:
  "get_cta_psf exact_numpy poly_interp1d sample_irf 10 2 (- 2) = Inr NaN"
proof -
  have g: "\<forall>e \<in> set (logspace exact_numpy (np_log10 exact_numpy 10) (np_log10 exact_numpy 2) 1000).
     hd (map2 (\<lambda>lo hi. (lo + hi) / 2) (ENERG_LO sample_irf) (ENERG_HI sample_irf)) \<le> e
   \<and> e \<le> last (map2 (\<lambda>lo hi. (lo + hi) / 2) (ENERG_LO sample_irf) (ENERG_HI sample_irf))"
    by (rule sample_grid_in_range) simp_all
  from get_cta_psf_degenerate_range[OF poly_interp1d_scipy_cubic sample_irf_facts(1-5)
      sample_irf_sorted g, of "- 2"]
  show ?thesis by simp
qed

text \<open>
  The degenerate range \<open>[5, 5]\<close> on the four-sample curve returns NaN: no error is
  raised.
\<close>

theorem get_cta_psf_range_counterexample:
  "get_cta_psf exact_numpy poly_interp1d sample_irf 5 5 (- 2) = Inr NaN"
proof -
  have g: "\<forall>e \<in> set (logspace exact_numpy (np_log10 exact_numpy 5) (np_log10 exact_numpy 5) 1000).
     hd (map2 (\<lambda>lo hi. (lo + hi) / 2) (ENERG_LO sample_irf) (ENERG_HI sample_irf)) \<le> e
   \<and> e \<le> last (map2 (\<lambda>lo hi. (lo + hi) / 2) (ENERG_LO sample_irf) (ENERG_HI sample_irf))"
    by (rule sample_grid_in_range) simp_all
  from get_cta_psf_empty_range[OF poly_interp1d_scipy_cubic sample_irf_facts(1-5)
      sample_irf_sorted g, of "- 2"]
  show ?thesis by simp
qed

section \<open>The sky-map renderer: proofs\<close>

lemma amax_amin_nonempty:
  "concat img \<noteq> [] \<Longrightarrow> \<exists>hi lo. amax img = Inr hi \<and> amin img = Inr lo"
  by (cases "concat img") (simp_all add: amax_def amin_def)

lemma empty_map_Inr:
  "empty_map img = Inr b \<Longrightarrow> \<exists>hi lo. amax img = Inr hi \<and> amin img = Inr lo"
  by (cases "concat img") (simp_all add: empty_map_def amax_def amin_def)

lemma fold_max_zero: "list_all (\<lambda>p. p = 0) ps \<Longrightarrow> fold max ps (0::real) = 0"
  by (induction ps) simp_all

lemma fold_min_zero: "list_all (\<lambda>p. p = 0) ps \<Longrightarrow> fold min ps (0::real) = 0"
  by (induction ps) simp_all

lemma empty_map_all_zero:
  assumes "all_zero img" "concat img \<noteq> []"
  shows "empty_map img = Inr True"
proof -
  from assms obtain ps where c: "concat img = 0 # ps" and z: "list_all (\<lambda>p. p = 0) ps"
    by (cases "concat img") (auto simp: all_zero_def)
  show ?thesis
    by (simp add: empty_map_def amax_def amin_def c fold_max_zero[OF z] fold_min_zero[OF z])
qed

lemma concat_empty_lengths: "(concat x = []) = (\<forall>n \<in> set (map length x). n = 0)"
  by (auto simp: concat_eq_Nil_conv)

lemma concat_empty_shape:
  "map length a = map length b \<Longrightarrow> (concat a = []) = (concat b = [])"
  by (simp only: concat_empty_lengths)

lemma boost_shape: "map length (significance_boost img sigma) = map length img"
  by (simp add: significance_boost_def comp_def)

lemma boost_all_zero: "all_zero img \<Longrightarrow> all_zero (significance_boost img sigma)"
  by (auto simp: all_zero_def significance_boost_def list_all_iff)

lemma boost_zero_sigma: "all_zero (significance_boost img 0)"
  by (auto simp: all_zero_def significance_boost_def list_all_iff)

lemma show_map_empty:
  assumes "empty_map (smooth_image gf (data h) (smoothing_FWHM a) \<bar>fst (cdelt (header h))\<bar>
             (significance a)) = Inr True"
  shows "show_map gf h outfile a =
     \<lparr>stdout = (if significance a then boost_warning else []) @ [empty_map_warning outfile],
      saved = None, raised = None\<rparr>"
proof -
  define img where "img = smooth_image gf (data h) (smoothing_FWHM a) \<bar>fst (cdelt (header h))\<bar>
             (significance a)"
  define out where "out = (if significance a then boost_warning else [])"
  have e: "empty_map img = Inr True" using assms by (simp only: img_def)
  from empty_map_Inr[OF e] obtain hi lo where m: "amax img = Inr hi" "amin img = Inr lo"
    by blast
  have "show_map gf h outfile a = \<lparr>stdout = out @ [empty_map_warning outfile],
      saved = None, raised = None\<rparr>"
    unfolding show_map_def Let_def img_def[symmetric] out_def[symmetric]
    by (cases "fst (rangevalue a)"; cases "snd (rangevalue a)") (simp_all add: e m)
  then show ?thesis by (simp only: out_def)
qed

lemma show_map_drawn:
  assumes "empty_map (smooth_image gf (data h) (smoothing_FWHM a) \<bar>fst (cdelt (header h))\<bar>
             (significance a)) = Inr False"
    and "show_pointing (ptg_ra a) (ptg_dec a) = Inr pointing"
    and "show_point_sources (ps_name a) (ps_ra a) (ps_dec a) = Inr sources"
  shows "\<exists>vmin vmax. show_map gf h outfile a =
     \<lparr>stdout = (if significance a then boost_warning else []),
      saved = Some (outfile,
        \<lparr>artists =
           Imshow (smooth_image gf (data h) (smoothing_FWHM a) \<bar>fst (cdelt (header h))\<bar>
               (significance a)) (cmap a) (logscale a) vmin vmax
           # show_cluster_t500 (cluster_t500 a) (cluster_ra a) (cluster_dec a)
           @ pointing
           @ show_cluster_center (cluster_ra a) (cluster_dec a) (cluster_name a)
           @ sources
           @ show_PSF (header h) (PSF a),
         xlabel = ''R.A. (deg)'', ylabel = ''Dec (deg)'', title = maptitle a,
         colorbar_label = bartitle a\<rparr>),
      raised = None\<rparr>"
proof -
  define img where "img = smooth_image gf (data h) (smoothing_FWHM a) \<bar>fst (cdelt (header h))\<bar>
             (significance a)"
  define out where "out = (if significance a then boost_warning else [])"
  have e: "empty_map img = Inr False" using assms(1) by (simp only: img_def)
  from empty_map_Inr[OF e] obtain hi lo where m: "amax img = Inr hi" "amin img = Inr lo"
    by blast
  have "\<exists>vmin vmax. show_map gf h outfile a =
     \<lparr>stdout = out,
      saved = Some (outfile,
        \<lparr>artists =
           Imshow img (cmap a) (logscale a) vmin vmax
           # show_cluster_t500 (cluster_t500 a) (cluster_ra a) (cluster_dec a)
           @ pointing
           @ show_cluster_center (cluster_ra a) (cluster_dec a) (cluster_name a)
           @ sources
           @ show_PSF (header h) (PSF a),
         xlabel = ''R.A. (deg)'', ylabel = ''Dec (deg)'', title = maptitle a,
         colorbar_label = bartitle a\<rparr>),
      raised = None\<rparr>"
    unfolding show_map_def Let_def img_def[symmetric] out_def[symmetric]
    by (cases "fst (rangevalue a)"; cases "snd (rangevalue a)") (simp_all add: e m assms(2,3))
  then show ?thesis by (simp only: out_def img_def)
qed

lemma show_map_saved:
  assumes "saved (show_map gf h outfile a) = Some (f, fig)"
  shows "\<exists>vmin vmax pointing sources.
     empty_map (smooth_image gf (data h) (smoothing_FWHM a) \<bar>fst (cdelt (header h))\<bar>
        (significance a)) = Inr False
     \<and> show_pointing (ptg_ra a) (ptg_dec a) = Inr pointing
     \<and> show_point_sources (ps_name a) (ps_ra a) (ps_dec a) = Inr sources
     \<and> f = outfile
     \<and> artists fig =
           Imshow (smooth_image gf (data h) (smoothing_FWHM a) \<bar>fst (cdelt (header h))\<bar>
               (significance a)) (cmap a) (logscale a) vmin vmax
           # show_cluster_t500 (cluster_t500 a) (cluster_ra a) (cluster_dec a)
           @ pointing
           @ show_cluster_center (cluster_ra a) (cluster_dec a) (cluster_name a)
           @ sources
           @ show_PSF (header h) (PSF a)"
proof -
  define img where "img = smooth_image gf (data h) (smoothing_FWHM a) \<bar>fst (cdelt (header h))\<bar>
             (significance a)"
  define out where "out = (if significance a then boost_warning else [])"
  have "\<exists>vmin vmax pointing sources.
     empty_map img = Inr False
     \<and> show_pointing (ptg_ra a) (ptg_dec a) = Inr pointing
     \<and> show_point_sources (ps_name a) (ps_ra a) (ps_dec a) = Inr sources
     \<and> f = outfile
     \<and> artists fig =
           Imshow img (cmap a) (logscale a) vmin vmax
           # show_cluster_t500 (cluster_t500 a) (cluster_ra a) (cluster_dec a)
           @ pointing
           @ show_cluster_center (cluster_ra a) (cluster_dec a) (cluster_name a)
           @ sources
           @ show_PSF (header h) (PSF a)"
    using assms
    unfolding show_map_def Let_def img_def[symmetric] out_def[symmetric]
    by (auto simp: failed_def split: sum.splits bool.splits)
  then show ?thesis by (simp only: img_def)
qed

lemma fold_max_Max: "fold max ps (p::real) = Max (set (p # ps))"
  by (rule Max.set_eq_fold[symmetric])

lemma fold_min_Min: "fold min ps (p::real) = Min (set (p # ps))"
  by (rule Min.set_eq_fold[symmetric])

lemma empty_map_nonzero:
  assumes "\<not> all_zero img"
  shows "empty_map img = Inr False"
proof -
  from assms obtain q where q: "q \<in> set (concat img)" "q \<noteq> 0"
    by (auto simp: all_zero_def list_all_iff)
  then obtain p ps where c: "concat img = p # ps" by (cases "concat img") auto
  have fin: "finite (set (p # ps))" "set (p # ps) \<noteq> {}" by simp_all
  have qs: "q \<in> set (p # ps)" using q c by simp
  have "\<not> (Max (set (p # ps)) = 0 \<and> Min (set (p # ps)) = 0)"
  proof
    assume "Max (set (p # ps)) = 0 \<and> Min (set (p # ps)) = 0"
    then have "q \<le> 0" "0 \<le> q"
      using Max_ge[OF fin(1) qs] Min_le[OF fin(1) qs] by simp_all
    then show False using q(2) by simp
  qed
  then show ?thesis
    by (auto simp: empty_map_def amax_def amin_def c fold_max_Max fold_min_Min simp del: set_simps)
qed

lemma stub_filter_contract:
  "shape_preserving stub_filter" "zero_preserving stub_filter"
  by (auto simp: shape_preserving_def zero_preserving_def stub_filter_def
      all_zero_def list_all_iff comp_def)

lemma sigma_sm_zero: "sigma_sm 0 reso = 0"
  by (simp add: sigma_sm_def)

lemma smooth_image_shape:
  "shape_preserving gf \<Longrightarrow> map length (smooth_image gf img fwhm reso s) = map length img"
  by (simp add: smooth_image_def gaussian_smoothing_def shape_preserving_def boost_shape Let_def)

lemma smooth_image_all_zero:
  "zero_preserving gf \<Longrightarrow> all_zero img \<Longrightarrow> all_zero (smooth_image gf img fwhm reso s)"
  by (simp add: smooth_image_def gaussian_smoothing_def zero_preserving_def boost_all_zero Let_def)

lemma show_map_zero_raster:
  assumes "all_zero (data h)" "concat (data h) \<noteq> []" "shape_preserving gf" "zero_preserving gf"
  shows "show_map gf h outfile a =
     \<lparr>stdout = (if significance a then boost_warning else []) @ [empty_map_warning outfile],
      saved = None, raised = None\<rparr>"
proof (rule show_map_empty, rule empty_map_all_zero)
  show "all_zero (smooth_image gf (data h) (smoothing_FWHM a) \<bar>fst (cdelt (header h))\<bar> (significance a))"
    using assms(4,1) by (rule smooth_image_all_zero)
  show "concat (smooth_image gf (data h) (smoothing_FWHM a) \<bar>fst (cdelt (header h))\<bar> (significance a)) \<noteq> []"
    using assms(2) concat_empty_shape[OF smooth_image_shape[OF assms(3)]] by blast
qed

lemma show_map_zero_factor:
  assumes "significance a" "smoothing_FWHM a = 0" "shape_preserving gf" "concat (data h) \<noteq> []"
  shows "show_map gf h outfile a =
     \<lparr>stdout = boost_warning @ [empty_map_warning outfile], saved = None, raised = None\<rparr>"
proof -
  let ?img = "smooth_image gf (data h) (smoothing_FWHM a) \<bar>fst (cdelt (header h))\<bar> (significance a)"
  have "?img = significance_boost (gf (data h) 0) 0"
    using assms(1,2) by (simp add: smooth_image_def gaussian_smoothing_def sigma_sm_zero)
  then have z: "all_zero ?img" by (simp only: boost_zero_sigma)
  have n: "concat ?img \<noteq> []"
    using assms(4) concat_empty_shape[OF smooth_image_shape[OF assms(3)]] by blast
  show ?thesis
    using show_map_empty[OF empty_map_all_zero[OF z n], of outfile] assms(1) by simp
qed

lemma sample_map_facts:
  "data sample_map = [[1, 2], [3, 4]]" "fst (cdelt (header sample_map)) = - 1 / 50"
  by (simp_all add: sample_map_def sample_wcs_def)

lemma zero_map_facts:
  "all_zero (data zero_map)" "concat (data zero_map) \<noteq> []"
  "fst (cdelt (header zero_map)) \<noteq> 0"
  by (auto simp: zero_map_def sample_wcs_def all_zero_def list_all_iff)

text \<open>
  Claim C2, as amended. In significance mode every pixel of the smoothed raster is
  multiplied by \<open>2 sigma_px sqrt pi\<close>, with
  \<open>sigma_px = (FWHM / (2 sqrt (2 ln 2))) / reso\<close>, whatever the value of \<open>sigma_px\<close>: the
  code has no special case, and at \<open>sigma_px = 0\<close> the factor \<open>0\<close> is multiplied into the
  pixels like any other. When the map is drawn, the rescaled image is the one shown.
\<close>

theorem significance_rescaling:
  "smooth_image gf img fwhm reso True =
      map (map (\<lambda>p. p * (2 * sigma_sm fwhm reso * sqrt pi))) (gaussian_smoothing gf img fwhm reso)
   \<and> sigma_sm fwhm reso = (fwhm / (2 * sqrt (2 * ln 2))) / reso
   \<and> (significance a \<and> saved (show_map gf h outfile a) = Some (f, fig) \<longrightarrow>
        (\<exists>vmin vmax rest. artists fig =
           Imshow (smooth_image gf (data h) (smoothing_FWHM a) \<bar>fst (cdelt (header h))\<bar> True)
             (cmap a) (logscale a) vmin vmax # rest))"
proof (intro conjI impI)
  show "smooth_image gf img fwhm reso True =
      map (map (\<lambda>p. p * (2 * sigma_sm fwhm reso * sqrt pi))) (gaussian_smoothing gf img fwhm reso)"
    by (simp add: smooth_image_def significance_boost_def)
  show "sigma_sm fwhm reso = (fwhm / (2 * sqrt (2 * ln 2))) / reso"
    by (simp add: sigma_sm_def)
next
  assume "significance a \<and> saved (show_map gf h outfile a) = Some (f, fig)"
  then have s: "significance a" and "saved (show_map gf h outfile a) = Some (f, fig)" by simp_all
  from show_map_saved[OF this(2)] show "\<exists>vmin vmax rest. artists fig =
           Imshow (smooth_image gf (data h) (smoothing_FWHM a) \<bar>fst (cdelt (header h))\<bar> True)
             (cmap a) (logscale a) vmin vmax # rest"
    using s by auto
qed

lemma sigma_sm_unit: "0 < reso \<Longrightarrow> sigma_sm (2 * sqrt (2 * ln 2) * reso) reso = 1"
  by (simp add: sigma_sm_def)

text \<open>
  With \<open>FWHM = 0\<close> the raster is not left unchanged: every pixel becomes \<open>0\<close>.
\<close>

theorem significance_zero_factor_counterexample:
  "sigma_sm 0 (1 / 50) = 0 \<and>
   smooth_image stub_filter [[1, 2], [3, 4]] 0 (1 / 50) True = [[0, 0], [0, 0]]"
  by (simp add: sigma_sm_zero smooth_image_def gaussian_smoothing_def significance_boost_def
      stub_filter_def)

lemma default_args_overlays:
  "show_pointing (ptg_ra default_args) (ptg_dec default_args) = Inr []"
  "show_point_sources (ps_name default_args) (ps_ra default_args) (ps_dec default_args) = Inr []"
  by (simp_all add: default_args_def show_pointing_def show_point_sources_def)

lemma boosted_image:
  "smooth_image stub_filter (data sample_map) (smoothing_FWHM boosted_args)
      \<bar>fst (cdelt (header sample_map))\<bar> True
   = [[sqrt pi, 2 * sqrt pi], [3 * sqrt pi, 4 * sqrt pi]]"
proof -
  have "sigma_sm (2 * sqrt (2 * ln 2) / 50) (1 / 50) = 1"
    using sigma_sm_unit[of "1 / 50"] by simp
  then show ?thesis
    by (simp add: boosted_args_def default_args_def sample_map_facts smooth_image_def
        gaussian_smoothing_def significance_boost_def stub_filter_def)
qed

text \<open>
  A run in significance mode with \<open>sigma_px = 1\<close>: the stand-in filter halves the
  pixels and the factor \<open>2 sqrt pi\<close> is multiplied in.
\<close>

theorem significance_rescaling_witness:
  "\<exists>f fig. significance boosted_args
     \<and> saved (show_map stub_filter sample_map ''map.png'' boosted_args) = Some (f, fig)
     \<and> (\<exists>vmin vmax rest. artists fig =
           Imshow [[sqrt pi, 2 * sqrt pi], [3 * sqrt pi, 4 * sqrt pi]]
             ''magma'' True vmin vmax # rest)"
proof -
  have s: "significance boosted_args" by (simp add: boosted_args_def default_args_def)
  have "\<not> all_zero [[sqrt pi, 2 * sqrt pi], [3 * sqrt pi, 4 * sqrt pi]]"
    by (simp add: all_zero_def)
  then have e: "empty_map (smooth_image stub_filter (data sample_map) (smoothing_FWHM boosted_args)
      \<bar>fst (cdelt (header sample_map))\<bar> (significance boosted_args)) = Inr False"
    using s by (simp add: boosted_image empty_map_nonzero)
  have o: "show_pointing (ptg_ra boosted_args) (ptg_dec boosted_args) = Inr []"
    "show_point_sources (ps_name boosted_args) (ps_ra boosted_args) (ps_dec boosted_args) = Inr []"
    using default_args_overlays by (simp_all add: boosted_args_def)
  from show_map_drawn[OF e o, of "''map.png''"] obtain fig where
    f: "saved (show_map stub_filter sample_map ''map.png'' boosted_args) = Some (''map.png'', fig)"
    by auto
  from significance_rescaling[of stub_filter "[]" 0 1 boosted_args sample_map "''map.png''" "''map.png''" fig]
  have "\<exists>vmin vmax rest. artists fig =
           Imshow [[sqrt pi, 2 * sqrt pi], [3 * sqrt pi, 4 * sqrt pi]]
             (cmap boosted_args) (logscale boosted_args) vmin vmax # rest"
    using s f by (simp only: boosted_image) 
  then show ?thesis using s f by (simp add: boosted_args_def default_args_def)
qed

text \<open>
  Claim C3, as amended. For an all-zero raster with at least one pixel (and a non-zero
  pixel step), \<open>show_map\<close> writes no file and raises nothing; it prints the empty-map
  warning once, as its last line. That line is the only output when significance mode
  is off; in significance mode the two lines of the boost warning come before it.
\<close>

theorem show_map_all_zero:
  assumes "all_zero (data h)" and "concat (data h) \<noteq> []" and "fst (cdelt (header h)) \<noteq> 0"
    and "shape_preserving gf" and "zero_preserving gf"
  shows "show_map gf h outfile a =
     \<lparr>stdout = (if significance a then boost_warning else []) @ [empty_map_warning outfile],
      saved = None, raised = None\<rparr>"
  using assms(1,2,4,5) by (rule show_map_zero_raster)

text \<open>A 10 by 10 raster of zeros with the default arguments.\<close>

theorem show_map_all_zero_witness:
  "show_map stub_filter zero_map ''map.png'' default_args =
     \<lparr>stdout = [''!!!!!!!!!! WARNING: empty map, map.png was not created''],
      saved = None, raised = None\<rparr>"
  using show_map_all_zero[OF zero_map_facts stub_filter_contract(1,2), of "''map.png''" default_args]
  by (simp add: default_args_def empty_map_warning_def)

text \<open>
  The same raster in significance mode: three lines are printed, two of them warnings.
\<close>

theorem show_map_two_warnings_counterexample:
  "stdout (show_map stub_filter zero_map ''map.png'' (default_args\<lparr>significance := True\<rparr>)) =
     [''WARNING: The significance is boosted accounting for smoothing.'',
      ''         This assumes weak noise spatial variarion (w.r.t. smoothing), gaussian regime, and uncorrelated pixels.'',
      ''!!!!!!!!!! WARNING: empty map, map.png was not created'']"
  using show_map_zero_raster[OF zero_map_facts(1,2) stub_filter_contract(1,2), of "''map.png''"
      "default_args\<lparr>significance := True\<rparr>"]
  by (simp add: default_args_def empty_map_warning_def boost_warning_def)

text \<open>
  Claim C5. With \<open>smoothing_FWHM = 0\<close> the code passes \<open>sigma = 0\<close> to scipy's
  \<^verbatim>\<open>gaussian_filter\<close>, whatever the pixel step. That filter convolves only along the
  axes whose sigma is above \<^verbatim>\<open>1e-15\<close>, so here it copies the raster: the smoothing step
  returns the raster unchanged, whatever the convolution is, and outside significance
  mode the image drawn is the input raster.
\<close>

theorem smoothing_zero_fwhm_identity:
  "sigma_sm 0 reso = 0
   \<and> gaussian_filter convolve img 0 = img
   \<and> gaussian_smoothing (gaussian_filter convolve) img 0 reso = img
   \<and> (smoothing_FWHM a = 0 \<and> \<not> significance a
        \<and> saved (show_map (gaussian_filter convolve) h outfile a) = Some (f, fig) \<longrightarrow>
         (\<exists>vmin vmax rest. artists fig = Imshow (data h) (cmap a) (logscale a) vmin vmax # rest))"
proof (intro conjI impI)
  show "sigma_sm 0 reso = 0" by (rule sigma_sm_zero)
  show "gaussian_filter convolve img 0 = img" by (simp add: gaussian_filter_def)
  show "gaussian_smoothing (gaussian_filter convolve) img 0 reso = img"
    by (simp add: gaussian_smoothing_def sigma_sm_zero gaussian_filter_def)
  assume "smoothing_FWHM a = 0 \<and> \<not> significance a
        \<and> saved (show_map (gaussian_filter convolve) h outfile a) = Some (f, fig)"
  then have z: "smoothing_FWHM a = 0" and s: "\<not> significance a"
    and "saved (show_map (gaussian_filter convolve) h outfile a) = Some (f, fig)" by simp_all
  from show_map_saved[OF this(3)] show "\<exists>vmin vmax rest. artists fig =
       Imshow (data h) (cmap a) (logscale a) vmin vmax # rest"
    using s z
    by (auto simp: smooth_image_def gaussian_smoothing_def sigma_sm_zero gaussian_filter_def)
qed

text \<open>The sample map drawn with the default arguments.\<close>

theorem smoothing_zero_fwhm_identity_witness:
  "\<exists>f fig. gaussian_smoothing (gaussian_filter stub_filter) [[1, 2], [3, 4]] 0 (1 / 50) = [[1, 2], [3, 4]]
     \<and> saved (show_map (gaussian_filter stub_filter) sample_map ''map.png'' default_args) = Some (f, fig)
     \<and> (\<exists>vmin vmax rest. artists fig = Imshow [[1, 2], [3, 4]] ''magma'' True vmin vmax # rest)"
proof -
  have a: "smoothing_FWHM default_args = 0" "\<not> significance default_args"
    by (simp_all add: default_args_def)
  have i: "smooth_image (gaussian_filter stub_filter) (data sample_map) (smoothing_FWHM default_args)
      \<bar>fst (cdelt (header sample_map))\<bar> (significance default_args) = [[1, 2], [3, 4]]"
    by (simp add: a smooth_image_def gaussian_smoothing_def sigma_sm_zero gaussian_filter_def
        sample_map_facts)
  have "\<not> all_zero [[1, 2], [3, 4]]" by (simp add: all_zero_def)
  then have e: "empty_map (smooth_image (gaussian_filter stub_filter) (data sample_map)
      (smoothing_FWHM default_args) \<bar>fst (cdelt (header sample_map))\<bar>
      (significance default_args)) = Inr False"
    unfolding i by (rule empty_map_nonzero)
  from show_map_drawn[OF e default_args_overlays, of "''map.png''"] obtain fig where
    f: "saved (show_map (gaussian_filter stub_filter) sample_map ''map.png'' default_args) =
          Some (''map.png'', fig)"
    by auto
  from smoothing_zero_fwhm_identity[of "1 / 50" stub_filter "[[1, 2], [3, 4]]" default_args
      sample_map "''map.png''" "''map.png''" fig]
  have "gaussian_smoothing (gaussian_filter stub_filter) [[1, 2], [3, 4]] 0 (1 / 50) = [[1, 2], [3, 4]]
    \<and> (\<exists>vmin vmax rest. artists fig = Imshow [[1, 2], [3, 4]] ''magma'' True vmin vmax # rest)"
    using a f by (simp add: sample_map_facts default_args_def)
  then show ?thesis using f by blast
qed

text \<open>
  Claim C9, as amended. In significance mode with \<open>smoothing_FWHM = 0\<close>, for every
  raster of finite pixels with at least one pixel (zero or not), a non-zero pixel step
  and a filter that keeps the shape: every pixel is multiplied by \<open>0\<close>, the image is
  all zero, the test of line 285 finds an empty map, and the call prints the boost
  warning and the empty-map warning and writes no file.
\<close>

theorem significance_without_smoothing:
  assumes "significance a" and "smoothing_FWHM a = 0" and "fst (cdelt (header h)) \<noteq> 0"
    and "shape_preserving gf" and "concat (data h) \<noteq> []"
  shows "smooth_image gf (data h) (smoothing_FWHM a) \<bar>fst (cdelt (header h))\<bar> (significance a)
       = map (map (\<lambda>p. p * 0)) (gf (data h) 0)
     \<and> all_zero (smooth_image gf (data h) (smoothing_FWHM a) \<bar>fst (cdelt (header h))\<bar>
          (significance a))
     \<and> empty_map (smooth_image gf (data h) (smoothing_FWHM a) \<bar>fst (cdelt (header h))\<bar>
          (significance a)) = Inr True
     \<and> show_map gf h outfile a =
          \<lparr>stdout = boost_warning @ [empty_map_warning outfile], saved = None, raised = None\<rparr>"
proof -
  let ?img = "smooth_image gf (data h) (smoothing_FWHM a) \<bar>fst (cdelt (header h))\<bar> (significance a)"
  have i: "?img = map (map (\<lambda>p. p * 0)) (gf (data h) 0)"
    using assms(1,2)
    by (simp add: smooth_image_def gaussian_smoothing_def sigma_sm_zero significance_boost_def)
  have z: "all_zero ?img"
    unfolding i by (auto simp: all_zero_def list_all_iff)
  have n: "concat ?img \<noteq> []"
    using assms(5) concat_empty_shape[OF smooth_image_shape[OF assms(4)]] by blast
  show ?thesis
    using i z empty_map_all_zero[OF z n] show_map_zero_factor[OF assms(1,2,4,5), of outfile]
    by blast
qed

text \<open>The sample map, whose pixels are 1 to 4.\<close>

theorem significance_without_smoothing_witness:
  "smooth_image stub_filter [[1, 2], [3, 4]] 0 (1 / 50) True = [[0, 0], [0, 0]]
   \<and> show_map stub_filter sample_map ''map.png'' (default_args\<lparr>significance := True\<rparr>) =
       \<lparr>stdout =
          [''WARNING: The significance is boosted accounting for smoothing.'',
           ''         This assumes weak noise spatial variarion (w.r.t. smoothing), gaussian regime, and uncorrelated pixels.'',
           ''!!!!!!!!!! WARNING: empty map, map.png was not created''],
        saved = None, raised = None\<rparr>"
proof -
  let ?a = "default_args\<lparr>significance := True\<rparr>"
  have a: "significance ?a" "smoothing_FWHM ?a = 0" by (simp_all add: default_args_def)
  have c: "fst (cdelt (header sample_map)) \<noteq> 0" "concat (data sample_map) \<noteq> []"
    by (simp_all add: sample_map_facts)
  from significance_without_smoothing[OF a c(1) stub_filter_contract(1) c(2), of "''map.png''"]
  show ?thesis
    by (simp add: a sample_map_facts stub_filter_def boost_warning_def empty_map_warning_def)
qed

text \<open>
  A raster of two rows and no column: \<^verbatim>\<open>np.amin\<close> raises on it, the test of line 285
  is not reached and no empty-map warning is printed.
\<close>

theorem significance_without_smoothing_counterexample:
  "show_map stub_filter \<lparr>data = [[], []], header = sample_wcs\<rparr> ''map.png''
      (default_args\<lparr>significance := True\<rparr>) =
     \<lparr>stdout =
        [''WARNING: The significance is boosted accounting for smoothing.'',
         ''         This assumes weak noise spatial variarion (w.r.t. smoothing), gaussian regime, and uncorrelated pixels.''],
      saved = None, raised = Some ValueError\<rparr>"
  by (simp add: show_map_def default_args_def smooth_image_def gaussian_smoothing_def
      significance_boost_def stub_filter_def sigma_sm_zero amin_def failed_def boost_warning_def
      sample_wcs_def)

lemma point_sources_loop_indices:
  assumes "\<forall>i \<in> set idx. i < length ras \<and> i < length decs"
  shows "point_sources_loop names ras decs idx =
     Inr (concat (map (\<lambda>i. point_source (names ! i) (ras ! i) (decs ! i)) idx))"
  using assms by (induction idx) (simp_all add: not_le)

lemma zip3_nth:
  assumes "length ras = length names" "length decs = length names"
  shows "zip names (zip ras decs) = map (\<lambda>i. (names ! i, ras ! i, decs ! i)) [0..<length names]"
  using assms by (intro nth_equalityI) simp_all

lemma show_point_sources_parallel:
  assumes "length ras = length names" "length decs = length names"
  shows "show_point_sources names ras decs =
     Inr (concat (map (\<lambda>(n, r, d). point_source n r d) (zip names (zip ras decs))))"
proof -
  have "show_point_sources names ras decs =
     Inr (concat (map (\<lambda>i. point_source (names ! i) (ras ! i) (decs ! i)) [0..<length names]))"
    unfolding show_point_sources_def using assms by (intro point_sources_loop_indices) simp
  then show ?thesis
    by (simp only: zip3_nth[OF assms] map_map comp_def prod.case)
qed

lemma point_source_green: "x \<in> set (point_source n r d) \<Longrightarrow> artist_color x = ''green''"
  by (auto simp: point_source_def split: option.splits)

lemma point_sources_loop_green:
  "point_sources_loop names ras decs idx = Inr arts \<Longrightarrow> x \<in> set arts
     \<Longrightarrow> artist_color x = ''green''"
  by (induction idx arbitrary: arts)
     (auto split: if_splits sum.splits dest: point_source_green)

lemma show_point_sources_green:
  "show_point_sources names ras decs = Inr arts \<Longrightarrow> x \<in> set arts \<Longrightarrow> artist_color x = ''green''"
  unfolding show_point_sources_def by (rule point_sources_loop_green)

lemma filter_all: "(\<And>x. x \<in> set xs \<Longrightarrow> P x) \<Longrightarrow> filter P xs = xs"
  by (simp add: filter_id_conv)

lemma filter_none: "(\<And>x. x \<in> set xs \<Longrightarrow> \<not> P x) \<Longrightarrow> filter P xs = []"
  by (simp add: filter_empty_conv)

lemma show_pointing_colors:
  "show_pointing ra dec = Inr arts \<Longrightarrow> x \<in> set arts \<Longrightarrow> artist_color x = ''white'' \<and> \<not> is_ellipse x"
  by (auto simp: show_pointing_def split: option.splits pyval.splits list.splits if_splits)

lemma show_cluster_center_colors:
  "x \<in> set (show_cluster_center ra dec name) \<Longrightarrow> artist_color x = ''cyan''"
  by (auto simp: show_cluster_center_def split: option.splits)

lemma show_cluster_t500_colors:
  "x \<in> set (show_cluster_t500 t ra dec) \<Longrightarrow> artist_color x = ''lightgray''"
  by (auto simp: show_cluster_t500_def Let_def split: option.splits)

lemma show_PSF_colors:
  "x \<in> set (show_PSF w p) \<Longrightarrow> artist_color x = ''white'' \<and> fontsize x \<noteq> 10"
  by (auto simp: show_PSF_def Let_def split: option.splits)

lemma sample_map_drawn:
  assumes "smoothing_FWHM a = 0" "\<not> significance a"
  shows "empty_map (smooth_image stub_filter (data sample_map) (smoothing_FWHM a)
      \<bar>fst (cdelt (header sample_map))\<bar> (significance a)) = Inr False"
proof -
  have i: "smooth_image stub_filter (data sample_map) (smoothing_FWHM a)
      \<bar>fst (cdelt (header sample_map))\<bar> (significance a) = [[1, 2], [3, 4]]"
    by (simp add: assms smooth_image_def gaussian_smoothing_def sigma_sm_zero stub_filter_def
        sample_map_facts)
  have "\<not> all_zero [[1, 2], [3, 4]]" by (simp add: all_zero_def)
  then show ?thesis unfolding i by (rule empty_map_nonzero)
qed

text \<open>
  Claim C6. Whenever \<open>show_map\<close> writes a figure and the cluster radius \<open>r\<close>, right
  ascension and declination \<open>d\<close> (degrees) are given, the figure has exactly one ellipse
  with a light-gray edge: centred at the cluster, of full width \<open>2 r / cos d\<close>, that is
  of half-width \<open>r / cos d\<close>, and of full height \<open>2 r\<close>. For \<open>d = 60\<close> and \<open>r = 1/2\<close> the
  half-width is \<open>1\<close>.
\<close>

theorem region_ellipse_axes:
  assumes "saved (show_map gf h outfile a) = Some (f, fig)"
    and "cluster_t500 a = Some r" and "cluster_ra a = Some ra" and "cluster_dec a = Some d"
  shows "\<exists>e. filter (\<lambda>x. is_ellipse x \<and> artist_color x = ''lightgray'') (artists fig) = [e]
     \<and> e = Ellipse (ra, d) (2 * r / cos (d * pi / 180)) (2 * r) 2 False ''lightgray'' ''none''
     \<and> ellipse_width e / 2 = r / cos (d * pi / 180)
     \<and> ellipse_height e = 2 * r
     \<and> (d = 60 \<and> r = 1 / 2 \<longrightarrow> ellipse_width e / 2 = 1)"
proof -
  from show_map_saved[OF assms(1)] obtain vmin vmax pointing sources where
    p: "show_pointing (ptg_ra a) (ptg_dec a) = Inr pointing"
    and s: "show_point_sources (ps_name a) (ps_ra a) (ps_dec a) = Inr sources"
    and art: "artists fig =
           Imshow (smooth_image gf (data h) (smoothing_FWHM a) \<bar>fst (cdelt (header h))\<bar>
               (significance a)) (cmap a) (logscale a) vmin vmax
           # show_cluster_t500 (cluster_t500 a) (cluster_ra a) (cluster_dec a)
           @ pointing
           @ show_cluster_center (cluster_ra a) (cluster_dec a) (cluster_name a)
           @ sources
           @ show_PSF (header h) (PSF a)"
    by blast
  let ?P = "\<lambda>x. is_ellipse x \<and> artist_color x = ''lightgray''"
  have 1: "filter ?P pointing = []"
    using show_pointing_colors[OF p] by (intro filter_none) simp
  have 2: "filter ?P (show_cluster_center (cluster_ra a) (cluster_dec a) (cluster_name a)) = []"
    using show_cluster_center_colors by (intro filter_none) fastforce
  have 3: "filter ?P sources = []"
    using show_point_sources_green[OF s] by (intro filter_none) fastforce
  have 4: "filter ?P (show_PSF (header h) (PSF a)) = []"
    using show_PSF_colors by (intro filter_none) fastforce
  have 5: "filter ?P (show_cluster_t500 (cluster_t500 a) (cluster_ra a) (cluster_dec a)) =
      [Ellipse (ra, d) (2 * r / cos (d * pi / 180)) (2 * r) 2 False ''lightgray'' ''none'']"
    by (simp add: assms(2-4) show_cluster_t500_def)
  have c: "r = 1 / 2 \<Longrightarrow> 2 * r / cos (60 * pi / 180) / 2 = 1"
    by (simp add: cos_60)
  show ?thesis
    unfolding art using c by (auto simp add: 1 2 3 4 5)
qed

text \<open>A cluster at declination 60 with radius 1/2 on the sample map.\<close>

theorem region_ellipse_axes_witness:
  "\<exists>fig e. saved (show_map stub_filter sample_map ''map.png'' cluster_args) = Some (''map.png'', fig)
     \<and> filter (\<lambda>x. is_ellipse x \<and> artist_color x = ''lightgray'') (artists fig) = [e]
     \<and> e = Ellipse (83, 60) (2 * (1 / 2) / cos (60 * pi / 180)) (2 * (1 / 2)) 2 False
           ''lightgray'' ''none''
     \<and> ellipse_width e / 2 = 1
     \<and> ellipse_height e = 1"
proof -
  have a: "smoothing_FWHM cluster_args = 0" "\<not> significance cluster_args"
    "cluster_t500 cluster_args = Some (1 / 2)" "cluster_ra cluster_args = Some 83"
    "cluster_dec cluster_args = Some 60"
    by (simp_all add: cluster_args_def default_args_def)
  have o: "show_pointing (ptg_ra cluster_args) (ptg_dec cluster_args) = Inr []"
    "show_point_sources (ps_name cluster_args) (ps_ra cluster_args) (ps_dec cluster_args) = Inr []"
    using default_args_overlays by (simp_all add: cluster_args_def)
  from show_map_drawn[OF sample_map_drawn[OF a(1,2)] o, of "''map.png''"] obtain fig where
    f: "saved (show_map stub_filter sample_map ''map.png'' cluster_args) = Some (''map.png'', fig)"
    by auto
  from region_ellipse_axes[OF f a(3-5)] f show ?thesis by auto
qed

lemma point_source_filter_green:
  "filter (\<lambda>x. artist_color x = ''green'')
     (concat (map (\<lambda>(n, r, d). point_source n r d) zs))
   = concat (map (\<lambda>(n, r, d). point_source n r d) zs)"
  by (rule filter_all) (auto dest: point_source_green)

lemma point_source_unfold:
  "(\<lambda>(n, r, d). point_source n r d) =
   (\<lambda>(name, ra, dec).
            case (ra, dec) of
              (Some r, Some d) \<Rightarrow>
                [Scatter (PyFloat r) (PyFloat d) ''o'' 200 ''none'' ''green'',
                 Text (PyFloat (r - 0.1)) (PyFloat (d + 0.1)) name 10 ''green'']
            | _ \<Rightarrow> [])"
  by (auto simp: fun_eq_iff point_source_def split: option.splits)

text \<open>
  Claim C7. When the map is drawn and the three point-source lists have the same
  length, the call raises nothing, prints nothing about the sources, and the green
  artists of the figure are, in the order of the lists, one open circle and one label
  for each entry with both coordinates; an entry with a missing coordinate adds
  nothing.
\<close>

theorem point_sources_skip_missing:
  assumes "empty_map (smooth_image gf (data h) (smoothing_FWHM a) \<bar>fst (cdelt (header h))\<bar>
             (significance a)) = Inr False"
    and "show_pointing (ptg_ra a) (ptg_dec a) = Inr pointing"
    and "length (ps_ra a) = length (ps_name a)" and "length (ps_dec a) = length (ps_name a)"
  shows "\<exists>fig. show_map gf h outfile a =
        \<lparr>stdout = (if significance a then boost_warning else []),
         saved = Some (outfile, fig), raised = None\<rparr>
     \<and> filter (\<lambda>x. artist_color x = ''green'') (artists fig) =
         concat (map (\<lambda>(name, ra, dec).
            case (ra, dec) of
              (Some r, Some d) \<Rightarrow>
                [Scatter (PyFloat r) (PyFloat d) ''o'' 200 ''none'' ''green'',
                 Text (PyFloat (r - 0.1)) (PyFloat (d + 0.1)) name 10 ''green'']
            | _ \<Rightarrow> [])
           (zip (ps_name a) (zip (ps_ra a) (ps_dec a))))"
proof -
  let ?src = "concat (map (\<lambda>(n, r, d). point_source n r d) (zip (ps_name a) (zip (ps_ra a) (ps_dec a))))"
  let ?G = "\<lambda>x. artist_color x = ''green''"
  have s: "show_point_sources (ps_name a) (ps_ra a) (ps_dec a) = Inr ?src"
    using assms(3,4) by (rule show_point_sources_parallel)
  from show_map_drawn[OF assms(1,2) s, of outfile] obtain vmin vmax where
    m: "show_map gf h outfile a =
     \<lparr>stdout = (if significance a then boost_warning else []),
      saved = Some (outfile,
        \<lparr>artists =
           Imshow (smooth_image gf (data h) (smoothing_FWHM a) \<bar>fst (cdelt (header h))\<bar>
               (significance a)) (cmap a) (logscale a) vmin vmax
           # show_cluster_t500 (cluster_t500 a) (cluster_ra a) (cluster_dec a)
           @ pointing
           @ show_cluster_center (cluster_ra a) (cluster_dec a) (cluster_name a)
           @ ?src
           @ show_PSF (header h) (PSF a),
         xlabel = ''R.A. (deg)'', ylabel = ''Dec (deg)'', title = maptitle a,
         colorbar_label = bartitle a\<rparr>),
      raised = None\<rparr>"
    by blast
  have 1: "filter ?G pointing = []"
    using show_pointing_colors[OF assms(2)] by (intro filter_none) simp
  have 2: "filter ?G (show_cluster_center (cluster_ra a) (cluster_dec a) (cluster_name a)) = []"
    using show_cluster_center_colors by (intro filter_none) fastforce
  have 3: "filter ?G (show_cluster_t500 (cluster_t500 a) (cluster_ra a) (cluster_dec a)) = []"
    using show_cluster_t500_colors by (intro filter_none) fastforce
  have 4: "filter ?G (show_PSF (header h) (PSF a)) = []"
    using show_PSF_colors by (intro filter_none) fastforce
  have 5: "filter ?G ?src = ?src" by (rule point_source_filter_green)
  have 6: "?src = concat (map (\<lambda>(name, ra, dec).
            case (ra, dec) of
              (Some r, Some d) \<Rightarrow>
                [Scatter (PyFloat r) (PyFloat d) ''o'' 200 ''none'' ''green'',
                 Text (PyFloat (r - 0.1)) (PyFloat (d + 0.1)) name 10 ''green'']
            | _ \<Rightarrow> [])
           (zip (ps_name a) (zip (ps_ra a) (ps_dec a))))"
    by (simp only: point_source_unfold)
  show ?thesis
    unfolding m point_source_unfold[symmetric]
    by (intro exI conjI, rule refl) (simp add: 1 2 3 4 5)
qed

text \<open>Three sources, the second without right ascension.\<close>

theorem point_sources_skip_missing_witness:
  "\<exists>fig. show_map stub_filter sample_map ''map.png'' sources_args =
        \<lparr>stdout = [], saved = Some (''map.png'', fig), raised = None\<rparr>
     \<and> filter (\<lambda>x. artist_color x = ''green'') (artists fig) =
         [Scatter (PyFloat 83) (PyFloat 22) ''o'' 200 ''none'' ''green'',
          Text (PyFloat (83 - 0.1)) (PyFloat (22 + 0.1)) ''A'' 10 ''green'',
          Scatter (PyFloat 84) (PyFloat 23) ''o'' 200 ''none'' ''green'',
          Text (PyFloat (84 - 0.1)) (PyFloat (23 + 0.1)) ''C'' 10 ''green'']"
proof -
  have a: "smoothing_FWHM sources_args = 0" "\<not> significance sources_args"
    "show_pointing (ptg_ra sources_args) (ptg_dec sources_args) = Inr []"
    "length (ps_ra sources_args) = length (ps_name sources_args)"
    "length (ps_dec sources_args) = length (ps_name sources_args)"
    by (simp_all add: sources_args_def default_args_def show_pointing_def)
  from point_sources_skip_missing[OF sample_map_drawn[OF a(1,2)] a(3-5), of "''map.png''"]
  show ?thesis
    by (simp add: sources_args_def default_args_def)
qed

lemma pointing_label_of_drawn:
  assumes "empty_map (smooth_image gf (data h) (smoothing_FWHM a) \<bar>fst (cdelt (header h))\<bar>
             (significance a)) = Inr False"
    and "show_point_sources (ps_name a) (ps_ra a) (ps_dec a) = Inr sources"
    and "show_pointing (ptg_ra a) (ptg_dec a) = Inr pointing"
  shows "\<exists>fig. saved (show_map gf h outfile a) = Some (outfile, fig)
     \<and> raised (show_map gf h outfile a) = None
     \<and> filter (\<lambda>t. is_text t \<and> artist_color t = ''white'' \<and> fontsize t = 10) (artists fig)
         = filter (\<lambda>t. is_text t \<and> artist_color t = ''white'' \<and> fontsize t = 10) pointing"
proof -
  let ?L = "\<lambda>t. is_text t \<and> artist_color t = ''white'' \<and> fontsize t = 10"
  from show_map_drawn[OF assms(1,3,2), of outfile] obtain vmin vmax where
    m: "show_map gf h outfile a =
     \<lparr>stdout = (if significance a then boost_warning else []),
      saved = Some (outfile,
        \<lparr>artists =
           Imshow (smooth_image gf (data h) (smoothing_FWHM a) \<bar>fst (cdelt (header h))\<bar>
               (significance a)) (cmap a) (logscale a) vmin vmax
           # show_cluster_t500 (cluster_t500 a) (cluster_ra a) (cluster_dec a)
           @ pointing
           @ show_cluster_center (cluster_ra a) (cluster_dec a) (cluster_name a)
           @ sources
           @ show_PSF (header h) (PSF a),
         xlabel = ''R.A. (deg)'', ylabel = ''Dec (deg)'', title = maptitle a,
         colorbar_label = bartitle a\<rparr>),
      raised = None\<rparr>"
    by blast
  have 1: "filter ?L (show_cluster_t500 (cluster_t500 a) (cluster_ra a) (cluster_dec a)) = []"
    using show_cluster_t500_colors by (intro filter_none) fastforce
  have 2: "filter ?L (show_cluster_center (cluster_ra a) (cluster_dec a) (cluster_name a)) = []"
    using show_cluster_center_colors by (intro filter_none) fastforce
  have 3: "filter ?L sources = []"
    using show_point_sources_green[OF assms(2)] by (intro filter_none) fastforce
  have 4: "filter ?L (show_PSF (header h) (PSF a)) = []"
    using show_PSF_colors by (intro filter_none) fastforce
  show ?thesis
    unfolding m by (simp add: 1 2 3 4)
qed

text \<open>
  Claim C8. When the map is drawn, the figure has exactly one white label of size 10:
  for a pair of floats it reads \<open>Pointing\<close> and sits at the pointing, 0.2 degrees up; for
  two non-empty lists of the same length, one right ascension and one declination for
  each pointing, it reads \<open>Pointings\<close> and sits at the first pointing, 0.2 degrees up.
\<close>

theorem pointing_label:
  assumes "empty_map (smooth_image gf (data h) (smoothing_FWHM a) \<bar>fst (cdelt (header h))\<bar>
             (significance a)) = Inr False"
    and "show_point_sources (ps_name a) (ps_ra a) (ps_dec a) = Inr sources"
  shows "(ptg_ra a = Some (PyFloat x) \<and> ptg_dec a = Some (PyFloat y) \<longrightarrow>
       (\<exists>fig. saved (show_map gf h outfile a) = Some (outfile, fig)
          \<and> raised (show_map gf h outfile a) = None
          \<and> filter (\<lambda>t. is_text t \<and> artist_color t = ''white'' \<and> fontsize t = 10) (artists fig)
              = [Text (PyFloat x) (PyFloat (y + 0.2)) ''Pointing'' 10 ''white'']))
    \<and> (ptg_ra a = Some (PyList (x # xs)) \<and> ptg_dec a = Some (PyList (y # ys))
         \<and> length xs = length ys \<longrightarrow>
       (\<exists>fig. saved (show_map gf h outfile a) = Some (outfile, fig)
          \<and> raised (show_map gf h outfile a) = None
          \<and> filter (\<lambda>t. is_text t \<and> artist_color t = ''white'' \<and> fontsize t = 10) (artists fig)
              = [Text (PyFloat x) (PyFloat (y + 0.2)) ''Pointings'' 10 ''white'']))"
proof (intro conjI impI)
  assume "ptg_ra a = Some (PyFloat x) \<and> ptg_dec a = Some (PyFloat y)"
  then have p: "show_pointing (ptg_ra a) (ptg_dec a) =
      Inr [Scatter (PyFloat x) (PyFloat y) ''x'' 100 ''white'' ''white'',
           Text (PyFloat x) (PyFloat (y + 0.2)) ''Pointing'' 10 ''white'']"
    by (simp add: show_pointing_def)
  from pointing_label_of_drawn[OF assms p, of outfile]
  show "\<exists>fig. saved (show_map gf h outfile a) = Some (outfile, fig)
          \<and> raised (show_map gf h outfile a) = None
          \<and> filter (\<lambda>t. is_text t \<and> artist_color t = ''white'' \<and> fontsize t = 10) (artists fig)
              = [Text (PyFloat x) (PyFloat (y + 0.2)) ''Pointing'' 10 ''white'']"
    by simp
next
  assume "ptg_ra a = Some (PyList (x # xs)) \<and> ptg_dec a = Some (PyList (y # ys))
         \<and> length xs = length ys"
  then have p: "show_pointing (ptg_ra a) (ptg_dec a) =
      Inr [Scatter (PyList (x # xs)) (PyList (y # ys)) ''x'' 100 ''white'' ''white'',
           Text (PyFloat x) (PyFloat (y + 0.2)) ''Pointings'' 10 ''white'']"
    by (simp add: show_pointing_def)
  from pointing_label_of_drawn[OF assms p, of outfile]
  show "\<exists>fig. saved (show_map gf h outfile a) = Some (outfile, fig)
          \<and> raised (show_map gf h outfile a) = None
          \<and> filter (\<lambda>t. is_text t \<and> artist_color t = ''white'' \<and> fontsize t = 10) (artists fig)
              = [Text (PyFloat x) (PyFloat (y + 0.2)) ''Pointings'' 10 ''white'']"
    by simp
qed

text \<open>One pointing, then a list of two.\<close>

theorem pointing_label_witness:
  "(\<exists>fig. saved (show_map stub_filter sample_map ''map.png'' pointing_args) = Some (''map.png'', fig)
      \<and> filter (\<lambda>t. is_text t \<and> artist_color t = ''white'' \<and> fontsize t = 10) (artists fig)
          = [Text (PyFloat 83) (PyFloat (22 + 0.2)) ''Pointing'' 10 ''white''])
   \<and> (\<exists>fig. saved (show_map stub_filter sample_map ''map.png'' pointings_args) = Some (''map.png'', fig)
      \<and> filter (\<lambda>t. is_text t \<and> artist_color t = ''white'' \<and> fontsize t = 10) (artists fig)
          = [Text (PyFloat 83) (PyFloat (22 + 0.2)) ''Pointings'' 10 ''white''])"
proof -
  have a: "smoothing_FWHM pointing_args = 0" "\<not> significance pointing_args"
    "show_point_sources (ps_name pointing_args) (ps_ra pointing_args) (ps_dec pointing_args) = Inr []"
    "ptg_ra pointing_args = Some (PyFloat 83) \<and> ptg_dec pointing_args = Some (PyFloat 22)"
    by (simp_all add: pointing_args_def default_args_def show_point_sources_def)
  have b: "smoothing_FWHM pointings_args = 0" "\<not> significance pointings_args"
    "show_point_sources (ps_name pointings_args) (ps_ra pointings_args) (ps_dec pointings_args) = Inr []"
    "ptg_ra pointings_args = Some (PyList [83, 84]) \<and> ptg_dec pointings_args = Some (PyList [22, 23])
       \<and> length [84 :: real] = length [23 :: real]"
    by (simp_all add: pointings_args_def default_args_def show_point_sources_def)
  from pointing_label[OF sample_map_drawn[OF a(1,2)] a(3), where x = 83 and y = 22
      and outfile = "''map.png''"] a(4)
  have 1: "\<exists>fig. saved (show_map stub_filter sample_map ''map.png'' pointing_args) = Some (''map.png'', fig)
      \<and> filter (\<lambda>t. is_text t \<and> artist_color t = ''white'' \<and> fontsize t = 10) (artists fig)
          = [Text (PyFloat 83) (PyFloat (22 + 0.2)) ''Pointing'' 10 ''white'']"
    by blast
  from pointing_label[OF sample_map_drawn[OF b(1,2)] b(3), where x = 83 and y = 22
      and xs = "[84]" and ys = "[23]" and outfile = "''map.png''"] b(4)
  have 2: "\<exists>fig. saved (show_map stub_filter sample_map ''map.png'' pointings_args) = Some (''map.png'', fig)
      \<and> filter (\<lambda>t. is_text t \<and> artist_color t = ''white'' \<and> fontsize t = 10) (artists fig)
          = [Text (PyFloat 83) (PyFloat (22 + 0.2)) ''Pointings'' 10 ''white'']"
    by blast
  from 1 2 show ?thesis by (rule conjI)
qed

section \<open>\<^verbatim>\<open>Admin._check_obsID\<close>: proofs\<close>

lemma flag_obsID_strings:
  "flag_obsID self (map PyStr xs) =
     (concat (map (\<lambda>s. if s \<notin> set (obsid (obs_setup self)) \<and> \<not> silent self
                         then [missing_warning s] else []) xs),
      Inr (map (\<lambda>s. s \<in> set (obsid (obs_setup self))) xs))"
  by (induction xs) (simp_all add: Let_def)

lemma flag_obsID_non_string:
  "PyNonStr \<in> set l \<Longrightarrow> snd (flag_obsID self l) = Inl ValueError"
proof (induction l)
  case Nil
  then show ?case by simp
next
  case (Cons x l)
  then show ?case
    by (cases x) (auto simp: Let_def split: prod.splits sum.splits)
qed

lemma str_values_strings: "str_values (map PyStr xs) = xs"
  by (induction xs) simp_all

lemma np_str_no_trailing_nul: "s = [] \<or> last s \<noteq> CHR 0x00 \<Longrightarrow> np_str s = s"
proof (cases "s = []")
  case True
  then show ?thesis by (simp add: np_str_def)
next
  case False
  assume "s = [] \<or> last s \<noteq> CHR 0x00"
  with False have "hd (rev s) \<noteq> CHR 0x00" by (simp add: hd_rev)
  moreover have "rev s \<noteq> []" using False by simp
  ultimately have "dropWhile (\<lambda>c. c = CHR 0x00) (rev s) = rev s"
    by (cases "rev s") auto
  then show ?thesis by (simp add: np_str_def)
qed

lemma check_obsID_strings:
  "snd (check_obsID self (ObsList (map PyStr xs))) =
     (if filter (\<lambda>s. s \<in> set (obsid (obs_setup self))) xs = [] then Inl ValueError
      else Inr (remdups (map np_str (filter (\<lambda>s. s \<in> set (obsid (obs_setup self))) xs))))"
proof -
  let ?P = "\<lambda>s. s \<in> set (obsid (obs_setup self))"
  have 1: "filter id (map ?P xs) = [] \<longleftrightarrow> filter ?P xs = []"
    by (auto simp: filter_empty_conv)
  have 2: "mask_select (map ?P xs) (map np_str xs) = map np_str (filter ?P xs)"
    by (rule mask_select_map)
  show ?thesis
    by (simp add: check_obsID_def flag_obsID_strings str_values_strings 1 2)
qed

text \<open>
  Claim C10, as amended. For a list of strings none of which ends with a NUL character
  and with at least one entry in \<^verbatim>\<open>self.obs_setup.obsid\<close>, \<open>check_obsID\<close> returns a list
  without duplicates whose entries are exactly the input entries found there. It
  raises ValueError when an element of the list is not a string, and when no entry is
  found. For \<^verbatim>\<open>None\<close> it returns \<^verbatim>\<open>self.obs_setup.obsid\<close> and prints nothing.
\<close>

theorem check_obsID_valid:
  "(set xs \<inter> set (obsid (obs_setup self)) \<noteq> {}
      \<and> (\<forall>s \<in> set xs. s = [] \<or> last s \<noteq> CHR 0x00) \<longrightarrow>
      (\<exists>ys. snd (check_obsID self (ObsList (map PyStr xs))) = Inr ys
         \<and> distinct ys \<and> set ys = set xs \<inter> set (obsid (obs_setup self))))
   \<and> (PyNonStr \<in> set l \<longrightarrow> snd (check_obsID self (ObsList l)) = Inl ValueError)
   \<and> (set xs \<inter> set (obsid (obs_setup self)) = {} \<longrightarrow>
        snd (check_obsID self (ObsList (map PyStr xs))) = Inl ValueError)
   \<and> check_obsID self ObsNone = ([], Inr (obsid (obs_setup self)))"
proof (intro conjI impI)
  let ?P = "\<lambda>s. s \<in> set (obsid (obs_setup self))"
  have f: "set (filter ?P xs) = set xs \<inter> set (obsid (obs_setup self))" by auto
  {
    assume a: "set xs \<inter> set (obsid (obs_setup self)) \<noteq> {}
      \<and> (\<forall>s \<in> set xs. s = [] \<or> last s \<noteq> CHR 0x00)"
    then have n: "filter ?P xs \<noteq> []" using f by (metis set_empty)
    have "map np_str (filter ?P xs) = filter ?P xs"
      using a by (intro map_idI np_str_no_trailing_nul) auto
    then show "\<exists>ys. snd (check_obsID self (ObsList (map PyStr xs))) = Inr ys
         \<and> distinct ys \<and> set ys = set xs \<inter> set (obsid (obs_setup self))"
      using f n by (simp add: check_obsID_strings)
  }
  {
    assume "set xs \<inter> set (obsid (obs_setup self)) = {}"
    then have "filter ?P xs = []" using f by (metis set_empty)
    then show "snd (check_obsID self (ObsList (map PyStr xs))) = Inl ValueError"
      by (simp add: check_obsID_strings)
  }
  {
    assume "PyNonStr \<in> set l"
    from flag_obsID_non_string[OF this, of self]
    show "snd (check_obsID self (ObsList l)) = Inl ValueError"
      by (cases "flag_obsID self l") (auto simp: check_obsID_def)
  }
  show "check_obsID self ObsNone = ([], Inr (obsid (obs_setup self)))"
    by (simp add: check_obsID_def)
qed

text \<open>Three known runs; the input repeats one and names an unknown one.\<close>

theorem check_obsID_valid_witness:
  "check_obsID sample_admin (ObsList [PyStr ''002'', PyStr ''009'', PyStr ''001'', PyStr ''002'']) =
     ([''WARNING: obsID 009 does not exist, ignore it''], Inr [''001'', ''002''])
   \<and> set [''001'', ''002''] = set [''002'', ''009'', ''001'', ''002''] \<inter> set (obsid (obs_setup sample_admin))
   \<and> snd (check_obsID sample_admin (ObsList [PyStr ''001'', PyNonStr])) = Inl ValueError
   \<and> snd (check_obsID sample_admin (ObsList [PyStr ''008'', PyStr ''009''])) = Inl ValueError
   \<and> check_obsID sample_admin ObsNone = ([], Inr [''001'', ''002'', ''003''])"
proof -
  have 1: "check_obsID sample_admin (ObsList [PyStr ''002'', PyStr ''009'', PyStr ''001'', PyStr ''002'']) =
     ([''WARNING: obsID 009 does not exist, ignore it''], Inr [''001'', ''002''])"
    by (simp add: check_obsID_def sample_admin_def Let_def mask_select_def missing_warning_def
        np_str_def)
  have 2: "set [''001'', ''002''] = set [''002'', ''009'', ''001'', ''002''] \<inter> set (obsid (obs_setup sample_admin))"
    using check_obsID_valid[of "[''002'', ''009'', ''001'', ''002'']" sample_admin "[]"] 1
    by (auto simp: sample_admin_def)
  have 3: "snd (check_obsID sample_admin (ObsList [PyStr ''001'', PyNonStr])) = Inl ValueError"
    using check_obsID_valid[of "[]" sample_admin "[PyStr ''001'', PyNonStr]"] by simp
  have 4: "snd (check_obsID sample_admin (ObsList [PyStr ''008'', PyStr ''009''])) = Inl ValueError"
    using check_obsID_valid[of "[''008'', ''009'']" sample_admin "[]"]
    by (simp add: sample_admin_def)
  have 5: "check_obsID sample_admin ObsNone = ([], Inr [''001'', ''002'', ''003''])"
    using check_obsID_valid[of "[]" sample_admin "[]"] by (simp add: sample_admin_def)
  from 1 2 3 4 5 show ?thesis by blast
qed

text \<open>
  An identifier that ends with a NUL character, known to the setup: the entry returned
  has lost the NUL and is neither the input entry nor a known identifier.
\<close>

theorem check_obsID_trailing_nul_counterexample:
  "snd (check_obsID \<lparr>obs_setup = \<lparr>obsid = [[CHR ''a'', CHR 0x00]]\<rparr>, silent = True\<rparr>
          (ObsList [PyStr [CHR ''a'', CHR 0x00]])) = Inr [''a'']
   \<and> ''a'' \<notin> set [[CHR ''a'', CHR 0x00]]"
  by (simp add: check_obsID_def Let_def mask_select_def np_str_def)

end
